theory Spec2Isabelle
  imports Complex_Main
begin

section \<open>Python strings\<close>

text \<open>
  A Python \<open>str\<close> is modelled as a list of 8-bit characters, read as the code points
  below 256.  \<open>isspace\<close> is \<open>str.isspace\<close> on that range; \<open>strip\<close> is \<open>str.strip()\<close>.
\<close>

definition isspace :: "char \<Rightarrow> bool" where
  "isspace c =
     (let n = (of_char c :: nat)
      in (9 \<le> n \<and> n \<le> 13) \<or> (28 \<le> n \<and> n \<le> 32) \<or> n = 133 \<or> n = 160)"

definition strip :: "string \<Rightarrow> string" where
  "strip s = rev (dropWhile isspace (rev (dropWhile isspace s)))"

text \<open>\<open>" ".join(texts)\<close>\<close>

fun join_space :: "string list \<Rightarrow> string" where
  "join_space [] = []"
| "join_space [t] = t"
| "join_space (t # ts) = t @ '' '' @ join_space ts"

text \<open>\<open>str.lower()\<close> on the code points below 256.\<close>

definition lower_char :: "char \<Rightarrow> char" where
  "lower_char c =
     (let n = (of_char c :: nat)
      in if (65 \<le> n \<and> n \<le> 90) \<or> (192 \<le> n \<and> n \<le> 214) \<or> (216 \<le> n \<and> n \<le> 222)
         then char_of (n + 32) else c)"

definition lower :: "string \<Rightarrow> string" where
  "lower s = map lower_char s"

text \<open>The regular-expression class \<open>\w\<close> of a \<open>str\<close> pattern, below 256.\<close>

definition is_word_char :: "char \<Rightarrow> bool" where
  "is_word_char c =
     (let n = (of_char c :: nat)
      in (48 \<le> n \<and> n \<le> 57) \<or> (65 \<le> n \<and> n \<le> 90) \<or> n = 95 \<or> (97 \<le> n \<and> n \<le> 122)
         \<or> n = 170 \<or> n = 178 \<or> n = 179 \<or> n = 181 \<or> n = 185 \<or> n = 186
         \<or> (188 \<le> n \<and> n \<le> 190) \<or> (192 \<le> n \<and> n \<le> 214)
         \<or> (216 \<le> n \<and> n \<le> 246) \<or> (248 \<le> n \<and> n \<le> 255))"

definition is_ascii_alpha :: "char \<Rightarrow> bool" where
  "is_ascii_alpha c =
     (let n = (of_char c :: nat) in (65 \<le> n \<and> n \<le> 90) \<or> (97 \<le> n \<and> n \<le> 122))"

section \<open>Text analytics\<close>

subsection \<open>Optional capabilities and the sentiment analyser\<close>

text \<open>
  The module-level state of \<open>app.py\<close>: \<open>yake\<close> is \<open>Some\<close> exactly when \<open>_HAS_YAKE\<close> is
  true and then maps a document to the (keyword, score) pairs of
  \<open>KeywordExtractor(lan="en", n=1, top=20).extract_keywords\<close>; \<open>spacy_ents\<close> is \<open>Some\<close>
  exactly when \<open>_HAS_SPACY\<close> and \<open>_NLP\<close> are set and then maps a document to the
  (text, label) pairs of \<open>_NLP(doc).ents\<close>; \<open>sia_compound\<close> is
  \<open>sia.polarity_scores(t)["compound"]\<close>.  A Python float is read as the real number it
  denotes; no double lies strictly between the double written \<open>0.05\<close> and the real
  \<open>1/20\<close>, so comparing with the real gives what the float comparison gives.
\<close>

record analyzers =
  yake :: "(string \<Rightarrow> (string \<times> real) list) option"
  spacy_ents :: "(string \<Rightarrow> (string \<times> string) list) option"
  sia_compound :: "string \<Rightarrow> real"

subsection \<open>\<open>extract_hashtags\<close>\<close>

text \<open>\<open>re.findall(r"#\w+", t)\<close>: leftmost, greedy, non-overlapping matches.\<close>

function findall_hashtag :: "string \<Rightarrow> string list" where
  "findall_hashtag [] = []"
| "findall_hashtag (c # cs) =
     (if c = CHR ''#'' \<and> takeWhile is_word_char cs \<noteq> []
      then (c # takeWhile is_word_char cs) # findall_hashtag (dropWhile is_word_char cs)
      else findall_hashtag cs)"
  by pat_completeness auto
termination
  by (relation "measure length") (auto simp: length_dropWhile_le less_Suc_eq_le)

definition extract_hashtags :: "string list \<Rightarrow> string list" where
  "extract_hashtags texts = concat (map findall_hashtag texts)"

subsection \<open>\<open>extract_keywords\<close>\<close>

text \<open>\<open>re.findall(r"[A-Za-z]{3,}", s)\<close>: the maximal runs of ASCII letters of length
  at least 3.\<close>

function findall_alpha3 :: "string \<Rightarrow> string list" where
  "findall_alpha3 [] = []"
| "findall_alpha3 (c # cs) =
     (if is_ascii_alpha c
      then (let run = c # takeWhile is_ascii_alpha cs; rest = dropWhile is_ascii_alpha cs
            in if 3 \<le> length run then run # findall_alpha3 rest else findall_alpha3 rest)
      else findall_alpha3 cs)"
  by pat_completeness auto
termination
  by (relation "measure length") (auto simp: length_dropWhile_le less_Suc_eq_le)

text \<open>\<open>Counter(words)\<close>: counts in first-seen order.\<close>

fun counter_add :: "string \<Rightarrow> (string \<times> nat) list \<Rightarrow> (string \<times> nat) list" where
  "counter_add w [] = [(w, 1)]"
| "counter_add w ((k, n) # kvs) =
     (if k = w then (k, Suc n) # kvs else (k, n) # counter_add w kvs)"

definition counter :: "string list \<Rightarrow> (string \<times> nat) list" where
  "counter ws = foldl (\<lambda>acc w. counter_add w acc) [] ws"

text \<open>\<open>most_common(n)\<close>: by descending count, equal counts in first-seen order.\<close>

definition most_common :: "nat \<Rightarrow> (string \<times> nat) list \<Rightarrow> (string \<times> nat) list" where
  "most_common n kvs = take n (sort_key (\<lambda>kv. - int (snd kv)) kvs)"

definition extract_keywords :: "analyzers \<Rightarrow> string list \<Rightarrow> string list" where
  "extract_keywords an texts =
     (let full = join_space texts
      in case yake an of
           Some kw_extract \<Rightarrow> map fst (sort_key snd (kw_extract full))
         | None \<Rightarrow> map fst (most_common 20 (counter (findall_alpha3 (lower full)))))"

subsection \<open>\<open>named_entities\<close>\<close>

text \<open>The result is a list built from a Python set: its members without an order.\<close>

definition entity_labels :: "string set" where
  "entity_labels = {''ORG'', ''PRODUCT'', ''PERSON'', ''GPE'', ''EVENT''}"

definition named_entities :: "analyzers \<Rightarrow> string list \<Rightarrow> string set" where
  "named_entities an texts =
     (case spacy_ents an of
        None \<Rightarrow> {}
      | Some nlp \<Rightarrow> set (map fst (filter (\<lambda>e. snd e \<in> entity_labels) (nlp (join_space texts)))))"

subsection \<open>\<open>sentiment_scores\<close>\<close>

record counts =
  positive :: nat
  neutral :: nat
  negative :: nat

definition zero_counts :: counts where
  "zero_counts = \<lparr>positive = 0, neutral = 0, negative = 0\<rparr>"

definition count_one :: "analyzers \<Rightarrow> counts \<Rightarrow> string \<Rightarrow> counts" where
  "count_one an cs t =
     (let score = sia_compound an t
      in if score \<ge> 0.05 then cs\<lparr>positive := positive cs + 1\<rparr>
         else if score \<le> - 0.05 then cs\<lparr>negative := negative cs + 1\<rparr>
         else cs\<lparr>neutral := neutral cs + 1\<rparr>)"

definition sentiment_scores :: "analyzers \<Rightarrow> string list \<Rightarrow> counts" where
  "sentiment_scores an texts = foldl (count_one an) zero_counts texts"

subsection \<open>\<open>analyze\<close>\<close>

text \<open>
  The returned dictionary (\<open>keywords_out\<close> is its key \<open>keywords\<close>).  The key \<open>samples\<close> is present in one of the two return
  statements only, so the field is optional.  Next to the report the model returns the
  extractor functions that were called, in the order of the calls.
\<close>

record report =
  keywords_out :: "string list"
  entities :: "string set"
  hashtags :: "string list"
  sentiment :: counts
  samples :: "string list option"

datatype extractor = Extract_keywords | Named_entities | Extract_hashtags | Sentiment_scores

definition filter_texts :: "string list \<Rightarrow> string list" where
  "filter_texts ts = filter (\<lambda>t. strip t \<noteq> []) ts"

definition zero_report :: report where
  "zero_report =
     \<lparr>keywords_out = [], entities = {}, hashtags = [], sentiment = zero_counts, samples = None\<rparr>"

definition analyze :: "analyzers \<Rightarrow> string list \<Rightarrow> report \<times> extractor list" where
  "analyze an req_texts =
     (let texts = filter_texts req_texts
      in if texts = [] then (zero_report, [])
         else (\<lparr>keywords_out = extract_keywords an texts,
                entities = named_entities an texts,
                hashtags = extract_hashtags texts,
                sentiment = sentiment_scores an texts,
                samples = Some (take 10 texts)\<rparr>,
               [Extract_keywords, Named_entities, Extract_hashtags, Sentiment_scores]))"

text \<open>An analyser set with neither optional capability, scoring every text 0.\<close>

definition plain_analyzers :: analyzers where
  "plain_analyzers = \<lparr>yake = None, spacy_ents = None, sia_compound = (\<lambda>t. 0)\<rparr>"

section \<open>Ingestion\<close>

subsection \<open>Errors, time and helpers\<close>

text \<open>
  The exceptions that leave a route: the \<open>HTTPException\<close> raised by \<open>scrape_reddit\<close>, an
  attribute read that fails, a cache read that fails, the failures of the three
  collaborators (\<open>requests.get\<close>, the feed parser's entries, \<open>subprocess.run\<close>), and
  the \<open>ValueError\<close> of a library call.
\<close>

datatype error =
    HTTPException int string
  | AttributeError string
  | KeyError string
  | RequestException
  | SubprocessError
  | ValueError

text \<open>
  A \<open>datetime\<close> is its number of microseconds since the epoch, the resolution of
  the type; \<open>timedelta(days=d)\<close> is \<open>d\<close> days in microseconds; \<open>timestamp_int\<close> is
  \<open>int(dt.timestamp())\<close>, which drops the fraction of a second towards zero.
\<close>

definition timedelta_days :: "int \<Rightarrow> int" where
  "timedelta_days d = d * 86400000000"

definition timestamp_int :: "int \<Rightarrow> int" where
  "timestamp_int us = (if 0 \<le> us then us div 1000000 else - ((- us) div 1000000))"

definition clamp :: "int \<Rightarrow> int \<Rightarrow> int \<Rightarrow> int" where
  "clamp v lo hi = max lo (min hi v)"

subsection \<open>Models\<close>

datatype pyval = PyNone | PyStr string | PyInt int | PyBool bool

record ScrapeRequest =
  keyword :: string
  platform :: string
  timeframe_days :: int

text \<open>
  \<open>req.dict()\<close>: the declared fields, in declaration order.  The model class ignores
  input keys it does not declare, and reading an attribute that is not a declared field
  raises \<open>AttributeError\<close>.
\<close>

definition req_dict :: "ScrapeRequest \<Rightarrow> (string \<times> pyval) list" where
  "req_dict req =
     [(''keyword'', PyStr (keyword req)),
      (''platform'', PyStr (platform req)),
      (''timeframe_days'', PyInt (timeframe_days req))]"

definition getattr :: "ScrapeRequest \<Rightarrow> string \<Rightarrow> error + pyval" where
  "getattr req name =
     (case map_of (req_dict req) name of
        None \<Rightarrow> Inl (AttributeError name)
      | Some v \<Rightarrow> Inr v)"

fun truthy :: "pyval \<Rightarrow> bool" where
  "truthy PyNone = False"
| "truthy (PyStr s) = (s \<noteq> [])"
| "truthy (PyInt n) = (n \<noteq> 0)"
| "truthy (PyBool b) = b"

text \<open>The dictionaries appended to \<open>items\<close> (\<open>p_id\<close> is the key \<open>id\<close>, and so on).
  \<open>p_author\<close> is \<open>None\<close> for a missing author and where the key is not set.\<close>

record post =
  p_id :: pyval
  p_platform :: string
  p_author :: "string option"
  p_created_utc :: int
  p_permalink :: string
  p_text :: string

subsection \<open>The collaborators\<close>

text \<open>
  The upstream payloads have the shapes of their input contracts.  A reddit child is the
  dictionary \<open>child["data"]\<close>, a field being \<open>None\<close> when the key is missing;
  \<open>c_created_utc\<close> is the \<open>datetime\<close> that \<open>fromtimestamp\<close> makes of the number.  A feed
  entry has \<open>e_published_parsed = Some s\<close> when the attribute is there and set, \<open>s\<close>
  being the whole second it denotes, and \<open>e_link = None\<close> when the entry has no link
  attribute.  An output line of the scraping process is \<open>None\<close> when \<open>json.loads\<close>, a
  key read or \<open>fromisoformat\<close> raises on it, and otherwise the fields read, \<open>t_date\<close>
  being the \<open>datetime\<close> parsed.
\<close>

record reddit_child =
  c_id :: "string option"
  c_author :: "string option"
  c_created_utc :: "int option"
  c_title :: "string option"
  c_selftext :: "string option"
  c_permalink :: "string option"

record http_response =
  status_code :: int
  children :: "reddit_child list"

record feed_entry =
  e_published_parsed :: "int option"
  e_title :: "string option"
  e_summary :: "string option"
  e_link :: "string option"

record tweet =
  t_id :: int
  t_username :: string
  t_date :: int
  t_url :: string
  t_content :: string

text \<open>The calls made to the collaborators, recorded in order.\<close>

datatype upstream_call =
    Requests_get string "(string \<times> string) list"
  | Feedparser_parse string
  | Subprocess_run "string list"

text \<open>
  What a route reads from outside: the two digests of \<open>hashlib\<close>, the readings of the
  cache's timer at the membership test, the read and the store, the clock
  (\<open>utc_now\<close> is \<open>_utc_now()\<close>; \<open>utcnow_date_iso d\<close> is
  \<open>(datetime.utcnow() - timedelta(days=d)).date().isoformat()\<close>), and the answers of the
  three collaborators.
\<close>

record world =
  sha256_hexdigest :: "string \<Rightarrow> string"
  md5_hexdigest :: "string \<Rightarrow> string"
  timer_contains :: real
  timer_getitem :: real
  timer_setitem :: real
  utc_now :: int
  utcnow_date_iso :: "int \<Rightarrow> string"
  requests_get :: "string \<Rightarrow> (string \<times> string) list \<Rightarrow> error + http_response"
  feedparser_parse :: "string \<Rightarrow> feed_entry list"
  subprocess_run :: "string list \<Rightarrow> error + tweet option list"

subsection \<open>\<open>json.dumps(payload, sort_keys=True)\<close> and \<open>_cache_key\<close>\<close>

definition digit_char :: "nat \<Rightarrow> char" where
  "digit_char n = char_of (48 + n)"

function str_nat :: "nat \<Rightarrow> string" where
  "str_nat n = (if n < 10 then [digit_char n] else str_nat (n div 10) @ [digit_char (n mod 10)])"
  by pat_completeness auto
termination
  by (relation "measure id") auto

declare str_nat.simps [simp del]

definition str_int :: "int \<Rightarrow> string" where
  "str_int i = (if i < 0 then CHR ''-'' # str_nat (nat (- i)) else str_nat (nat i))"

definition hex_lower :: "nat \<Rightarrow> char" where
  "hex_lower n = (if n < 10 then char_of (48 + n) else char_of (87 + n))"

text \<open>String escaping with \<open>ensure_ascii\<close>, on the code points below 256.\<close>

definition json_escape_char :: "char \<Rightarrow> string" where
  "json_escape_char c =
     (let n = (of_char c :: nat)
      in if n = 34 then [CHR 0x5C, CHR 0x22]
         else if n = 92 then [CHR 0x5C, CHR 0x5C]
         else if n = 10 then [CHR 0x5C, CHR ''n'']
         else if n = 13 then [CHR 0x5C, CHR ''r'']
         else if n = 9 then [CHR 0x5C, CHR ''t'']
         else if n = 8 then [CHR 0x5C, CHR ''b'']
         else if n = 12 then [CHR 0x5C, CHR ''f'']
         else if 32 \<le> n \<and> n \<le> 126 then [c]
         else [CHR 0x5C, CHR ''u'', CHR ''0'', CHR ''0'', hex_lower (n div 16), hex_lower (n mod 16)])"

definition json_string :: "string \<Rightarrow> string" where
  "json_string s = [CHR 0x22] @ concat (map json_escape_char s) @ [CHR 0x22]"

fun json_value :: "pyval \<Rightarrow> string" where
  "json_value PyNone = ''null''"
| "json_value (PyStr s) = json_string s"
| "json_value (PyInt i) = str_int i"
| "json_value (PyBool b) = (if b then ''true'' else ''false'')"

text \<open>The order of \<open>str\<close> keys: by code point, a proper prefix first.\<close>

fun str_le :: "string \<Rightarrow> string \<Rightarrow> bool" where
  "str_le [] _ = True"
| "str_le (a # as) [] = False"
| "str_le (a # as) (b # bs) =
     ((of_char a :: nat) < of_char b \<or> (a = b \<and> str_le as bs))"

fun insert_item :: "string \<times> pyval \<Rightarrow> (string \<times> pyval) list \<Rightarrow> (string \<times> pyval) list" where
  "insert_item kv [] = [kv]"
| "insert_item kv (x # xs) =
     (if str_le (fst x) (fst kv) then x # insert_item kv xs else kv # x # xs)"

definition sort_items :: "(string \<times> pyval) list \<Rightarrow> (string \<times> pyval) list" where
  "sort_items kvs = foldl (\<lambda>acc kv. insert_item kv acc) [] kvs"

fun join_comma :: "string list \<Rightarrow> string" where
  "join_comma [] = []"
| "join_comma [t] = t"
| "join_comma (t # ts) = t @ '', '' @ join_comma ts"

definition json_dumps :: "(string \<times> pyval) list \<Rightarrow> string" where
  "json_dumps payload =
     ''{'' @ join_comma (map (\<lambda>kv. json_string (fst kv) @ '': '' @ json_value (snd kv))
                           (sort_items payload)) @ ''}''"

definition cache_key :: "world \<Rightarrow> string \<Rightarrow> (string \<times> pyval) list \<Rightarrow> string" where
  "cache_key w prefix payload = sha256_hexdigest w (prefix @ json_dumps payload)"

subsection \<open>The cache\<close>

text \<open>
  \<open>TTLCache(maxsize=128, ttl=600)\<close>, by the documented behaviour of the class: the
  entries in order of use, the least recently used first, each with the timer value at
  which it expires.  An expired entry is not a member and cannot be read; a store drops
  the expired entries, then, for a new key, the least recently used ones until there is
  room, and gives the stored entry a fresh time to live.
\<close>

record cache_entry =
  ce_key :: string
  ce_expires :: real
  ce_items :: "post list"

type_synonym cache = "cache_entry list"

definition maxsize :: nat where
  "maxsize = 128"

definition ttl :: real where
  "ttl = 600"

definition cache_contains :: "real \<Rightarrow> cache \<Rightarrow> string \<Rightarrow> bool" where
  "cache_contains t c k =
     (case find (\<lambda>e. ce_key e = k) c of None \<Rightarrow> False | Some e \<Rightarrow> t < ce_expires e)"

definition cache_getitem :: "real \<Rightarrow> cache \<Rightarrow> string \<Rightarrow> error + (post list \<times> cache)" where
  "cache_getitem t c k =
     (case find (\<lambda>e. ce_key e = k) c of
        None \<Rightarrow> Inl (KeyError k)
      | Some e \<Rightarrow>
          if t < ce_expires e then Inr (ce_items e, filter (\<lambda>x. ce_key x \<noteq> k) c @ [e])
          else Inl (KeyError k))"

definition cache_setitem :: "real \<Rightarrow> cache \<Rightarrow> string \<Rightarrow> post list \<Rightarrow> cache" where
  "cache_setitem t c k v =
     (let live = filter (\<lambda>e. t < ce_expires e) c;
          kept = (if find (\<lambda>e. ce_key e = k) live = None
                  then drop (Suc (length live) - maxsize) live
                  else filter (\<lambda>e. ce_key e \<noteq> k) live)
      in kept @ [\<lparr>ce_key = k, ce_expires = t + ttl, ce_items = v\<rparr>])"

text \<open>
  The entries that a store keeps before it appends the new one: the entries that have
  not expired, without the least recently used ones when a new key needs room, or
  without the old entry of the key.
\<close>

definition kept_entries :: "real \<Rightarrow> cache \<Rightarrow> string \<Rightarrow> cache" where
  "kept_entries t c k =
     (if find (\<lambda>e. ce_key e = k) (filter (\<lambda>e. t < ce_expires e) c) = None
      then drop (Suc (length (filter (\<lambda>e. t < ce_expires e) c)) - maxsize)
             (filter (\<lambda>e. t < ce_expires e) c)
      else filter (\<lambda>e. ce_key e \<noteq> k) (filter (\<lambda>e. t < ce_expires e) c))"

subsection \<open>\<open>scrape_reddit\<close>\<close>

definition get_or :: "string option \<Rightarrow> string \<Rightarrow> string" where
  "get_or v d = (case v of None \<Rightarrow> d | Some s \<Rightarrow> s)"

definition reddit_created :: "reddit_child \<Rightarrow> int" where
  "reddit_created d = (case c_created_utc d of None \<Rightarrow> 0 | Some t \<Rightarrow> t)"

definition reddit_text :: "reddit_child \<Rightarrow> string" where
  "reddit_text d = strip (get_or (c_title d) [] @ '' '' @ get_or (c_selftext d) [])"

definition reddit_post :: "reddit_child \<Rightarrow> post" where
  "reddit_post d =
     \<lparr>p_id = (case c_id d of None \<Rightarrow> PyNone | Some s \<Rightarrow> PyStr s),
      p_platform = ''reddit'',
      p_author = c_author d,
      p_created_utc = timestamp_int (reddit_created d),
      p_permalink = ''https://reddit.com'' @ get_or (c_permalink d) [],
      p_text = reddit_text d\<rparr>"

text \<open>The loop over the children; each \<open>continue\<close> is a recursive call that adds nothing.\<close>

fun reddit_loop :: "int \<Rightarrow> reddit_child list \<Rightarrow> post list" where
  "reddit_loop cutoff [] = []"
| "reddit_loop cutoff (d # ds) =
     (if reddit_created d < cutoff then reddit_loop cutoff ds
      else if reddit_text d = [] then reddit_loop cutoff ds
      else reddit_post d # reddit_loop cutoff ds)"

definition reddit_url :: string where
  "reddit_url = ''https://www.reddit.com/search.json''"

definition reddit_params :: "string \<Rightarrow> (string \<times> string) list" where
  "reddit_params kw = [(''q'', kw), (''sort'', ''new''), (''limit'', ''100'')]"

definition scrape_reddit :: "world \<Rightarrow> string \<Rightarrow> int \<Rightarrow> (error + post list) \<times> upstream_call list" where
  "scrape_reddit w kw days =
     (let call = Requests_get reddit_url (reddit_params kw)
      in case requests_get w reddit_url (reddit_params kw) of
           Inl e \<Rightarrow> (Inl e, [call])
         | Inr r \<Rightarrow>
             if status_code r \<noteq> 200 then (Inl (HTTPException 502 ''Reddit fetch failed''), [call])
             else (let now = utc_now w; cutoff = now - timedelta_days days
                   in (Inr (reddit_loop cutoff (children r)), [call])))"

subsection \<open>\<open>scrape_news\<close>\<close>

text \<open>\<open>requests.utils.quote\<close>: every byte of the UTF-8 form is percent-encoded, except
  the ASCII letters and digits and \<open>_ . - ~ /\<close>.\<close>

definition hex_upper :: "nat \<Rightarrow> char" where
  "hex_upper n = (if n < 10 then char_of (48 + n) else char_of (55 + n))"

definition utf8_bytes :: "char \<Rightarrow> nat list" where
  "utf8_bytes c =
     (let n = (of_char c :: nat) in if n < 128 then [n] else [192 + n div 64, 128 + n mod 64])"

definition quote_char :: "char \<Rightarrow> string" where
  "quote_char c =
     (let n = (of_char c :: nat)
      in if (48 \<le> n \<and> n \<le> 57) \<or> (65 \<le> n \<and> n \<le> 90) \<or> (97 \<le> n \<and> n \<le> 122)
            \<or> n = 95 \<or> n = 46 \<or> n = 45 \<or> n = 126 \<or> n = 47
         then [c]
         else concat (map (\<lambda>b. [CHR ''%'', hex_upper (b div 16), hex_upper (b mod 16)])
                (utf8_bytes c)))"

definition quote :: "string \<Rightarrow> string" where
  "quote s = concat (map quote_char s)"

definition feed_url :: "string \<Rightarrow> string" where
  "feed_url kw =
     ''https://news.google.com/rss/search?q='' @ quote kw @ ''&hl=en-US&gl=US&ceid=US:en''"

definition news_published :: "int \<Rightarrow> feed_entry \<Rightarrow> int" where
  "news_published now e =
     (case e_published_parsed e of None \<Rightarrow> now | Some s \<Rightarrow> s * 1000000)"

definition news_text :: "feed_entry \<Rightarrow> string" where
  "news_text e = strip (get_or (e_title e) [] @ '' '' @ get_or (e_summary e) [])"

text \<open>The loop over the entries; reading \<open>e.link\<close> of an entry without a link raises.\<close>

fun news_loop :: "world \<Rightarrow> int \<Rightarrow> int \<Rightarrow> feed_entry list \<Rightarrow> error + post list" where
  "news_loop w now cutoff [] = Inr []"
| "news_loop w now cutoff (e # es) =
     (if news_published now e < cutoff then news_loop w now cutoff es
      else case e_link e of
             None \<Rightarrow> Inl (AttributeError ''link'')
           | Some link \<Rightarrow>
               (case news_loop w now cutoff es of
                  Inl err \<Rightarrow> Inl err
                | Inr ps \<Rightarrow>
                    Inr (\<lparr>p_id = PyStr (md5_hexdigest w (if link \<noteq> [] then link else news_text e)),
                          p_platform = ''news'',
                          p_author = None,
                          p_created_utc = timestamp_int (news_published now e),
                          p_permalink = link,
                          p_text = news_text e\<rparr> # ps)))"

definition scrape_news :: "world \<Rightarrow> string \<Rightarrow> int \<Rightarrow> (error + post list) \<times> upstream_call list" where
  "scrape_news w kw days =
     (let d = feedparser_parse w (feed_url kw);
          now = utc_now w;
          cutoff = now - timedelta_days days
      in (news_loop w now cutoff (take 50 d), [Feedparser_parse (feed_url kw)]))"

subsection \<open>\<open>scrape_twitter\<close>\<close>

definition tweet_post :: "tweet \<Rightarrow> post" where
  "tweet_post t =
     \<lparr>p_id = PyInt (t_id t),
      p_platform = ''twitter'',
      p_author = Some (t_username t),
      p_created_utc = timestamp_int (t_date t),
      p_permalink = t_url t,
      p_text = t_content t\<rparr>"

text \<open>The loop over the output lines, \<open>None\<close> when a line raises; it stops at 100 items.\<close>

fun twitter_loop :: "post list \<Rightarrow> tweet option list \<Rightarrow> post list option" where
  "twitter_loop items [] = Some items"
| "twitter_loop items (None # ls) = None"
| "twitter_loop items (Some t # ls) =
     (if length (items @ [tweet_post t]) \<ge> 100 then Some (items @ [tweet_post t])
      else twitter_loop (items @ [tweet_post t]) ls)"

definition twitter_cmd :: "world \<Rightarrow> string \<Rightarrow> int \<Rightarrow> string list" where
  "twitter_cmd w kw days =
     [''snscrape'', ''--jsonl'', ''twitter-search'',
      kw @ '' since:'' @ utcnow_date_iso w days @ '' lang:en'']"

text \<open>Every exception inside the \<open>try\<close> is caught, and the result is then empty.\<close>

definition scrape_twitter :: "world \<Rightarrow> string \<Rightarrow> int \<Rightarrow> bool \<Rightarrow> post list \<times> upstream_call list" where
  "scrape_twitter w kw days use_snscrape =
     (if \<not> use_snscrape then ([], [])
      else (let cmd = twitter_cmd w kw days
            in case subprocess_run w cmd of
                 Inl e \<Rightarrow> ([], [Subprocess_run cmd])
               | Inr ls \<Rightarrow>
                   (case twitter_loop [] ls of
                      None \<Rightarrow> ([], [Subprocess_run cmd])
                    | Some items \<Rightarrow> (items, [Subprocess_run cmd]))))"

subsection \<open>\<open>scrape\<close>\<close>

record response =
  cached :: bool
  items :: "post list"

definition adapter :: "world \<Rightarrow> ScrapeRequest \<Rightarrow> (error + post list) \<times> upstream_call list" where
  "adapter w req =
     (if platform req = ''reddit''
      then scrape_reddit w (keyword req) (clamp (timeframe_days req) 1 30)
      else if platform req = ''news''
      then scrape_news w (keyword req) (clamp (timeframe_days req) 1 30)
      else case getattr req ''use_twitter_snscrape'' of
             Inl e \<Rightarrow> (Inl e, [])
           | Inr flag \<Rightarrow>
               (let r = scrape_twitter w (keyword req) (clamp (timeframe_days req) 1 30) (truthy flag)
                in (Inr (fst r), snd r)))"

text \<open>
  The route: the result or the exception, the cache afterwards, and the calls made to
  the collaborators.  \<open>adapter\<close> is the three-way branch of the route on the platform.
\<close>

definition scrape :: "world \<Rightarrow> cache \<Rightarrow> ScrapeRequest \<Rightarrow> (error + response) \<times> cache \<times> upstream_call list" where
  "scrape w c req =
     (let key = cache_key w ''scrape'' (req_dict req)
      in if cache_contains (timer_contains w) c key
         then (case cache_getitem (timer_getitem w) c key of
                 Inl e \<Rightarrow> (Inl e, c, [])
               | Inr (its, c') \<Rightarrow> (Inr \<lparr>cached = True, items = its\<rparr>, c', []))
         else (case adapter w req of
                 (Inl e, calls) \<Rightarrow> (Inl e, c, calls)
               | (Inr its, calls) \<Rightarrow>
                   (Inr \<lparr>cached = False, items = its\<rparr>,
                    cache_setitem (timer_setitem w) c key its, calls)))"

section \<open>Text analytics with library calls that may raise\<close>

text \<open>
  \<open>analyze\<close> catches no exception, and three of its extractors call a library: the
  keyword extractor of \<open>yake\<close>, the pipeline \<open>_NLP\<close> of spaCy, and
  \<open>sia.polarity_scores\<close>.  Here each of these calls returns its result or the exception
  it raises; an option is \<open>None\<close> when the capability is not installed, as before.
\<close>

record library =
  yake_call :: "(string \<Rightarrow> error + (string \<times> real) list) option"
  spacy_call :: "(string \<Rightarrow> error + (string \<times> string) list) option"
  sia_call :: "string \<Rightarrow> error + real"

definition extract_keywords_or_raise :: "library \<Rightarrow> string list \<Rightarrow> error + string list" where
  "extract_keywords_or_raise lib texts =
     (let full = join_space texts
      in case yake_call lib of
           Some kw_extract \<Rightarrow>
             (case kw_extract full of
                Inl e \<Rightarrow> Inl e
              | Inr kws \<Rightarrow> Inr (map fst (sort_key snd kws)))
         | None \<Rightarrow> Inr (map fst (most_common 20 (counter (findall_alpha3 (lower full))))))"

definition named_entities_or_raise :: "library \<Rightarrow> string list \<Rightarrow> error + string set" where
  "named_entities_or_raise lib texts =
     (case spacy_call lib of
        None \<Rightarrow> Inr {}
      | Some nlp \<Rightarrow>
          (case nlp (join_space texts) of
             Inl e \<Rightarrow> Inl e
           | Inr ents \<Rightarrow> Inr (set (map fst (filter (\<lambda>e. snd e \<in> entity_labels) ents)))))"

definition count_score :: "counts \<Rightarrow> real \<Rightarrow> counts" where
  "count_score cs score =
     (if score \<ge> 0.05 then cs\<lparr>positive := positive cs + 1\<rparr>
      else if score \<le> - 0.05 then cs\<lparr>negative := negative cs + 1\<rparr>
      else cs\<lparr>neutral := neutral cs + 1\<rparr>)"

text \<open>The loop of \<open>sentiment_scores\<close>; it ends at the first text on which the call raises.\<close>

fun sentiment_loop :: "library \<Rightarrow> counts \<Rightarrow> string list \<Rightarrow> error + counts" where
  "sentiment_loop lib cs [] = Inr cs"
| "sentiment_loop lib cs (t # ts) =
     (case sia_call lib t of
        Inl e \<Rightarrow> Inl e
      | Inr score \<Rightarrow> sentiment_loop lib (count_score cs score) ts)"

definition sentiment_scores_or_raise :: "library \<Rightarrow> string list \<Rightarrow> error + counts" where
  "sentiment_scores_or_raise lib texts = sentiment_loop lib zero_counts texts"

text \<open>
  The route: the dictionary is built key by key, so the extractors run in the order
  keywords, entities, hashtags, sentiment, and the first exception ends the call.
\<close>

definition analyze_or_raise :: "library \<Rightarrow> string list \<Rightarrow> error + report \<times> extractor list" where
  "analyze_or_raise lib req_texts =
     (let texts = filter_texts req_texts
      in if texts = [] then Inr (zero_report, [])
         else case extract_keywords_or_raise lib texts of
                Inl e \<Rightarrow> Inl e
              | Inr kws \<Rightarrow>
                  (case named_entities_or_raise lib texts of
                     Inl e \<Rightarrow> Inl e
                   | Inr ents \<Rightarrow>
                       (case sentiment_scores_or_raise lib texts of
                          Inl e \<Rightarrow> Inl e
                        | Inr cs \<Rightarrow>
                            Inr (\<lparr>keywords_out = kws,
                                  entities = ents,
                                  hashtags = extract_hashtags texts,
                                  sentiment = cs,
                                  samples = Some (take 10 texts)\<rparr>,
                                 [Extract_keywords, Named_entities, Extract_hashtags,
                                  Sentiment_scores]))))"

text \<open>The library whose calls return what the analysers \<open>an\<close> give, and never raise.\<close>

definition never_raising :: "analyzers \<Rightarrow> library" where
  "never_raising an =
     \<lparr>yake_call = map_option (\<lambda>f doc. Inr (f doc)) (yake an),
      spacy_call = map_option (\<lambda>f doc. Inr (f doc)) (spacy_ents an),
      sia_call = (\<lambda>t. Inr (sia_compound an t))\<rparr>"

section \<open>Example inputs\<close>

text \<open>
  A request for news about a keyword over 400 days, and the same request over 30 days.
\<close>

definition req400 :: ScrapeRequest where
  "req400 = \<lparr>keyword = ''climate'', platform = ''news'', timeframe_days = 400\<rparr>"

definition req30 :: ScrapeRequest where
  "req30 = \<lparr>keyword = ''climate'', platform = ''news'', timeframe_days = 30\<rparr>"

definition req_twitter :: ScrapeRequest where
  "req_twitter = \<lparr>keyword = ''climate'', platform = ''twitter'', timeframe_days = 7\<rparr>"

definition req_reddit :: ScrapeRequest where
  "req_reddit = \<lparr>keyword = ''climate'', platform = ''reddit'', timeframe_days = 7\<rparr>"

text \<open>
  The digests that \<open>hashlib\<close> gives on the strings hashed in the examples: SHA-256 of the
  two key strings of \<open>req400\<close> and \<open>req30\<close>, MD5 of two links.
\<close>

definition sha256_table :: "string \<Rightarrow> string" where
  "sha256_table s =
     (if s = ''scrape'' @ json_dumps (req_dict req400)
      then ''2a978cce1fb205f39470441bfbad33f0363f341ee2889c89f8ef3a47671b80fd''
      else if s = ''scrape'' @ json_dumps (req_dict req30)
      then ''4270a964b2b7641327790413de8f1ae381ff6a0b014af815d4ea156dcd7fc17f''
      else [])"

definition md5_table :: "string \<Rightarrow> string" where
  "md5_table s =
     (if s = ''https://example.com/a'' then ''cd69b81ea00cc2798797293cbc92d643''
      else if s = ''https://example.com/b'' then ''43cc12e82d91e0c52428768cbef58eb6''
      else [])"

text \<open>
  A world at 2023-11-14 22:13:20 UTC in which the feed is empty and the other two
  collaborators fail; the examples below change one collaborator each.
\<close>

definition base_world :: world where
  "base_world =
     \<lparr>sha256_hexdigest = sha256_table,
      md5_hexdigest = md5_table,
      timer_contains = 0,
      timer_getitem = 0,
      timer_setitem = 0,
      utc_now = 1700000000000000,
      utcnow_date_iso = (\<lambda>d. ''2023-11-07''),
      requests_get = (\<lambda>u p. Inl RequestException),
      feedparser_parse = (\<lambda>u. []),
      subprocess_run = (\<lambda>cmd. Inl SubprocessError)\<rparr>"

text \<open>A feed entry without a publish time, and one published on 2023-01-01.\<close>

definition fresh_entry :: feed_entry where
  "fresh_entry =
     \<lparr>e_published_parsed = None, e_title = Some ''Climate talks'', e_summary = Some [],
      e_link = Some ''https://example.com/a''\<rparr>"

definition old_entry :: feed_entry where
  "old_entry =
     \<lparr>e_published_parsed = Some 1672531200, e_title = Some ''Old story'', e_summary = Some [],
      e_link = Some ''https://example.com/a''\<rparr>"

text \<open>A feed entry whose title and summary are both empty.\<close>

definition blank_entry :: feed_entry where
  "blank_entry =
     \<lparr>e_published_parsed = None, e_title = Some [], e_summary = Some [],
      e_link = Some ''https://example.com/a''\<rparr>"

definition one_entry_world :: world where
  "one_entry_world = base_world\<lparr>feedparser_parse := (\<lambda>u. [fresh_entry])\<rparr>"

definition blank_entry_world :: world where
  "blank_entry_world = base_world\<lparr>feedparser_parse := (\<lambda>u. [blank_entry])\<rparr>"

definition long_feed_world :: world where
  "long_feed_world = base_world\<lparr>feedparser_parse := (\<lambda>u. replicate 50 old_entry @ [fresh_entry])\<rparr>"

text \<open>A reddit child dated ten minutes after the clock of the world, and the response
  that lists it; a response with status 503.\<close>

definition early_child :: reddit_child where
  "early_child =
     \<lparr>c_id = Some ''abc'', c_author = Some ''someone'', c_created_utc = Some 1700000600000000,
      c_title = Some ''Climate'', c_selftext = Some [], c_permalink = Some ''/r/x/abc''\<rparr>"

definition early_child_world :: world where
  "early_child_world =
     base_world\<lparr>requests_get := (\<lambda>u p. Inr \<lparr>status_code = 200, children = [early_child]\<rparr>)\<rparr>"

definition reddit_down_world :: world where
  "reddit_down_world =
     base_world\<lparr>requests_get := (\<lambda>u p. Inr \<lparr>status_code = 503, children = []\<rparr>)\<rparr>"

text \<open>
  The post that the news adapter makes of \<open>fresh_entry\<close>.
\<close>

definition fresh_post :: post where
  "fresh_post =
     \<lparr>p_id = PyStr ''cd69b81ea00cc2798797293cbc92d643'', p_platform = ''news'',
      p_author = None, p_created_utc = 1700000000,
      p_permalink = ''https://example.com/a'', p_text = ''Climate talks''\<rparr>"

subsection \<open>Dated items\<close>

text \<open>
  A feed entry published on 2023-10-25, twenty days before the clock of the worlds, with
  the post the news adapter makes of it; \<open>old_entry\<close> above is 317 days old, inside a
  window of 400 days and outside one of 30.
\<close>

definition dated_entry :: feed_entry where
  "dated_entry =
     \<lparr>e_published_parsed = Some 1698272000, e_title = Some ''Dated story'', e_summary = Some [],
      e_link = Some ''https://example.com/b''\<rparr>"

definition dated_post :: post where
  "dated_post =
     \<lparr>p_id = PyStr ''43cc12e82d91e0c52428768cbef58eb6'', p_platform = ''news'',
      p_author = None, p_created_utc = 1698272000,
      p_permalink = ''https://example.com/b'', p_text = ''Dated story''\<rparr>"

text \<open>Two reddit children, twenty and forty days old, and the post made of the first.\<close>

definition recent_child :: reddit_child where
  "recent_child =
     \<lparr>c_id = Some ''r20'', c_author = Some ''someone'', c_created_utc = Some 1698272000000000,
      c_title = Some ''Climate'', c_selftext = Some ''report'', c_permalink = Some ''/r/x/r20''\<rparr>"

definition stale_child :: reddit_child where
  "stale_child =
     \<lparr>c_id = Some ''r40'', c_author = Some ''someone'', c_created_utc = Some 1696544000000000,
      c_title = Some ''Climate'', c_selftext = Some ''history'', c_permalink = Some ''/r/x/r40''\<rparr>"

definition recent_post :: post where
  "recent_post =
     \<lparr>p_id = PyStr ''r20'', p_platform = ''reddit'', p_author = Some ''someone'',
      p_created_utc = 1698272000, p_permalink = ''https://reddit.com/r/x/r20'',
      p_text = ''Climate report''\<rparr>"

text \<open>A world in which both upstreams answer with dated items.\<close>

definition dated_world :: world where
  "dated_world =
     base_world
       \<lparr>requests_get :=
          (\<lambda>u p. Inr \<lparr>status_code = 200, children = [stale_child, recent_child]\<rparr>),
        feedparser_parse := (\<lambda>u. [old_entry, dated_entry, fresh_entry])\<rparr>"

subsection \<open>A feed that is down\<close>

text \<open>
  When the server of the feed answers with an HTTP error, \<open>feedparser.parse\<close> does not
  raise: it returns a result without entries.  In \<open>base_world\<close> the feed has no entries.
\<close>

definition news_down_world :: world where
  "news_down_world = base_world"

subsection \<open>Libraries that raise\<close>

text \<open>
  The spaCy pipeline raises \<open>ValueError\<close> on a text longer than its \<open>max_length\<close> of
  1000000 characters; the first library has this pipeline, no \<open>yake\<close>, and an analyser
  that scores 0.  In the second library every call raises.
\<close>

definition long_text_library :: library where
  "long_text_library =
     \<lparr>yake_call = None,
      spacy_call = Some (\<lambda>doc. if length doc > 1000000 then Inl ValueError else Inr []),
      sia_call = (\<lambda>t. Inr 0)\<rparr>"

definition always_raising_library :: library where
  "always_raising_library =
     \<lparr>yake_call = Some (\<lambda>doc. Inl ValueError),
      spacy_call = Some (\<lambda>doc. Inl ValueError),
      sia_call = (\<lambda>t. Inl ValueError)\<rparr>"

text \<open>
  A library with all three capabilities whose calls return on a text of ordinary length.
\<close>

definition full_library :: library where
  "full_library =
     \<lparr>yake_call = Some (\<lambda>doc. Inr [(''climate'', 0.1)]),
      spacy_call = Some (\<lambda>doc. if length doc > 1000000 then Inl ValueError
                                else Inr [(''Paris'', ''GPE'')]),
      sia_call = (\<lambda>t. Inr 0.5)\<rparr>"

subsection \<open>Capping after filtering\<close>

text \<open>
  The news adapter as the specification words it, for comparison with \<open>scrape_news\<close>:
  the recency filter runs over all entries of the feed and the cap of 50 is applied to
  what passes.
\<close>

definition news_cap_after_filter :: "world \<Rightarrow> string \<Rightarrow> int \<Rightarrow> error + post list" where
  "news_cap_after_filter w kw days =
     (let d = feedparser_parse w (feed_url kw);
          now = utc_now w;
          cutoff = now - timedelta_days days
      in map_sum id (take 50) (news_loop w now cutoff d))"

section \<open>Properties of the text analytics\<close>

lemma count_one_total:
  "positive (count_one an cs t) + neutral (count_one an cs t) + negative (count_one an cs t)
     = Suc (positive cs + neutral cs + negative cs)"
  by (simp add: count_one_def Let_def)

lemma foldl_count_one_total:
  "positive (foldl (count_one an) cs ts) + neutral (foldl (count_one an) cs ts)
     + negative (foldl (count_one an) cs ts)
   = positive cs + neutral cs + negative cs + length ts"
proof (induction ts arbitrary: cs)
  case Nil
  show ?case by simp
next
  case (Cons t ts)
  have "positive (foldl (count_one an) (count_one an cs t) ts)
          + neutral (foldl (count_one an) (count_one an cs t) ts)
          + negative (foldl (count_one an) (count_one an cs t) ts)
        = Suc (positive cs + neutral cs + negative cs) + length ts"
    using Cons.IH [of "count_one an cs t"] count_one_total [of an cs t] by simp
  then show ?case by simp
qed

lemma count_one_positive:
  "positive (count_one an cs t) = positive cs + (if sia_compound an t \<ge> 0.05 then 1 else 0)"
  by (simp add: count_one_def Let_def)

lemma count_one_negative:
  "negative (count_one an cs t)
     = negative cs + (if \<not> sia_compound an t \<ge> 0.05 \<and> sia_compound an t \<le> - 0.05 then 1 else 0)"
  by (simp add: count_one_def Let_def)

lemma foldl_count_one_positive:
  "positive (foldl (count_one an) cs ts)
     = positive cs + length (filter (\<lambda>t. sia_compound an t \<ge> 0.05) ts)"
  by (induction ts arbitrary: cs) (simp_all add: count_one_positive)

lemma foldl_count_one_negative:
  "negative (foldl (count_one an) cs ts)
     = negative cs + length (filter (\<lambda>t. sia_compound an t \<le> - 0.05) ts)"
proof (induction ts arbitrary: cs)
  case Nil
  show ?case by simp
next
  case (Cons t ts)
  have "sia_compound an t \<le> - 0.05 \<Longrightarrow> \<not> sia_compound an t \<ge> 0.05" by simp
  then show ?case using Cons.IH [of "count_one an cs t"]
    by (auto simp: count_one_negative)
qed

lemma count_one_neutral:
  "neutral (count_one an cs t)
     = neutral cs + (if - 0.05 < sia_compound an t \<and> sia_compound an t < 0.05 then 1 else 0)"
  by (simp add: count_one_def Let_def)

lemma foldl_count_one_neutral:
  "neutral (foldl (count_one an) cs ts)
     = neutral cs
       + length (filter (\<lambda>t. - 0.05 < sia_compound an t \<and> sia_compound an t < 0.05) ts)"
  by (induction ts arbitrary: cs) (simp_all add: count_one_neutral)

lemma sentiment_zero_counts:
  "positive zero_counts = 0" "neutral zero_counts = 0" "negative zero_counts = 0"
  by (simp_all add: zero_counts_def)

lemma analyze_sentiment:
  "sentiment (fst (analyze an req_texts)) = sentiment_scores an (filter_texts req_texts)"
  by (simp add: analyze_def Let_def zero_report_def sentiment_scores_def)

text \<open>
  Claim C7.  For every batch, the sentiment counts of the report classify each filtered
  text (a text that is non-empty after trimming) on its own: positive counts the filtered
  texts with compound score at least 0.05, negative those with score at most -0.05,
  neutral those strictly between, and the three counts add up to the number of filtered
  texts.
\<close>

theorem sentiment_counts_partition:
  "positive (sentiment (fst (analyze an req_texts)))
     = length (filter (\<lambda>t. sia_compound an t \<ge> 0.05) (filter_texts req_texts))
   \<and> negative (sentiment (fst (analyze an req_texts)))
     = length (filter (\<lambda>t. sia_compound an t \<le> - 0.05) (filter_texts req_texts))
   \<and> neutral (sentiment (fst (analyze an req_texts)))
     = length (filter (\<lambda>t. - 0.05 < sia_compound an t \<and> sia_compound an t < 0.05)
         (filter_texts req_texts))
   \<and> positive (sentiment (fst (analyze an req_texts)))
       + neutral (sentiment (fst (analyze an req_texts)))
       + negative (sentiment (fst (analyze an req_texts)))
     = length (filter_texts req_texts)"
  unfolding analyze_sentiment sentiment_scores_def
  using foldl_count_one_positive [of an zero_counts "filter_texts req_texts"]
        foldl_count_one_negative [of an zero_counts "filter_texts req_texts"]
        foldl_count_one_neutral [of an zero_counts "filter_texts req_texts"]
        foldl_count_one_total [of an zero_counts "filter_texts req_texts"]
  by (simp add: sentiment_zero_counts)

text \<open>
  With analysers that return, a batch in which no text is non-empty after trimming
  (the empty batch, a batch of whitespace strings) gives the zero-valued report with the
  four keys keywords, entities, hashtags and sentiment, and no extractor function is
  called.
\<close>

theorem analyze_empty_batch:
  assumes "filter_texts req_texts = []"
  shows "analyze an req_texts = (zero_report, [])"
  using assms by (simp add: analyze_def)

theorem analyze_empty_batch_witness:
  "filter_texts ['' '', ''''] = []
   \<and> analyze plain_analyzers ['' '', ''''] = (zero_report, [])"
proof -
  have h: "filter_texts ['' '', ''''] = []"
    by (simp add: filter_texts_def strip_def isspace_def)
  show ?thesis using h analyze_empty_batch [OF h, of plain_analyzers] by simp
qed

subsection \<open>Library calls that raise\<close>

text \<open>
  With a library that never raises, the route with raising calls returns the report of
  \<open>analyze\<close>.
\<close>

lemma count_one_score: "count_one an cs t = count_score cs (sia_compound an t)"
  by (simp add: count_one_def count_score_def Let_def)

lemma sentiment_loop_never_raising:
  "sentiment_loop (never_raising an) cs ts = Inr (foldl (count_one an) cs ts)"
  by (induction ts arbitrary: cs) (simp_all add: never_raising_def count_one_score)

lemma extract_keywords_never_raising:
  "extract_keywords_or_raise (never_raising an) texts = Inr (extract_keywords an texts)"
  by (cases "yake an")
     (simp_all add: extract_keywords_or_raise_def extract_keywords_def never_raising_def Let_def)

lemma named_entities_never_raising:
  "named_entities_or_raise (never_raising an) texts = Inr (named_entities an texts)"
  by (cases "spacy_ents an")
     (simp_all add: named_entities_or_raise_def named_entities_def never_raising_def)

lemma analyze_never_raising:
  "analyze_or_raise (never_raising an) req_texts = Inr (analyze an req_texts)"
  by (simp add: analyze_or_raise_def analyze_def Let_def extract_keywords_never_raising
      named_entities_never_raising sentiment_scores_or_raise_def sentiment_scores_def
      sentiment_loop_never_raising)

lemma filter_texts_replicate:
  "\<not> isspace ch \<Longrightarrow> 0 < n \<Longrightarrow> filter_texts [replicate n ch] = [replicate n ch]"
  by (cases n) (simp_all add: filter_texts_def strip_def)

lemma analyze_raises_with_spacy:
  assumes "filter_texts req_texts \<noteq> []" and "yake_call lib = None"
    and "spacy_call lib = Some nlp" and "nlp (join_space (filter_texts req_texts)) = Inl e"
  shows "analyze_or_raise lib req_texts = Inl e"
  using assms
  by (simp add: analyze_or_raise_def Let_def extract_keywords_or_raise_def
      named_entities_or_raise_def)

text \<open>
  Claim C8, as stated, fails: \<open>analyze\<close> catches nothing, so an exception of a
  library call ends it.  With spaCy installed, a batch of one text of 1000001 letters
  makes the pipeline raise \<open>ValueError\<close>, and the call fails.
\<close>

theorem analyze_raises_on_long_text:
  "analyze_or_raise long_text_library [replicate 1000001 (CHR ''a'')] = Inl ValueError"
proof -
  have f: "filter_texts [replicate 1000001 (CHR ''a'')] = [replicate 1000001 (CHR ''a'')]"
    by (rule filter_texts_replicate) (simp_all add: isspace_def)
  have "analyze_or_raise long_text_library [replicate 1000001 (CHR ''a'')] = Inl ValueError"
  proof (rule analyze_raises_with_spacy)
    show "filter_texts [replicate 1000001 (CHR ''a'')] \<noteq> []" by (simp add: f)
    show "yake_call long_text_library = None" by (simp add: long_text_library_def)
    show "spacy_call long_text_library
            = Some (\<lambda>doc. if length doc > 1000000 then Inl ValueError else Inr [])"
      by (simp add: long_text_library_def)
    show "(if length (join_space (filter_texts [replicate 1000001 (CHR ''a'')])) > 1000000
           then Inl ValueError else Inr []) = Inl ValueError"
      by (simp add: f)
  qed
  then show ?thesis .
qed

text \<open>
  The route returns when the calls it makes return.
\<close>

lemma sentiment_loop_returns:
  "list_all (\<lambda>t. \<not> isl (sia_call lib t)) ts \<Longrightarrow> \<not> isl (sentiment_loop lib cs ts)"
  by (induction ts arbitrary: cs) (auto split: sum.splits)

lemma analyze_returns:
  assumes "case yake_call lib of
             None \<Rightarrow> True
           | Some f \<Rightarrow> \<not> isl (f (join_space (filter_texts req_texts)))"
    and "case spacy_call lib of
           None \<Rightarrow> True
         | Some nlp \<Rightarrow> \<not> isl (nlp (join_space (filter_texts req_texts)))"
    and "list_all (\<lambda>t. \<not> isl (sia_call lib t)) (filter_texts req_texts)"
  shows "\<not> isl (analyze_or_raise lib req_texts)"
proof -
  have k: "\<not> isl (extract_keywords_or_raise lib (filter_texts req_texts))"
    using assms(1)
    by (auto simp: extract_keywords_or_raise_def Let_def split: option.splits sum.splits)
  have n: "\<not> isl (named_entities_or_raise lib (filter_texts req_texts))"
    using assms(2)
    by (auto simp: named_entities_or_raise_def split: option.splits sum.splits)
  have s: "\<not> isl (sentiment_scores_or_raise lib (filter_texts req_texts))"
    using assms(3) by (simp add: sentiment_scores_or_raise_def sentiment_loop_returns)
  from k n s show ?thesis
    by (auto simp: analyze_or_raise_def Let_def split: sum.splits)
qed

text \<open>
  Claim C8, amended.  When the batch is empty after trimming and filtering, analyze
  returns the zero-valued report without invoking any extractor, whatever the library
  calls would do.  For every batch, analyze returns a report when the library calls it
  makes (the keyword extractor and the entity pipeline on the joined texts, the sentiment
  analyser on each filtered text) do not raise; with a library that never raises it
  returns the report computed from the results of the calls.
\<close>

theorem analyze_returns_unless_library_raises:
  "(filter_texts req_texts = [] \<longrightarrow> analyze_or_raise lib req_texts = Inr (zero_report, []))
   \<and> ((case yake_call lib of
          None \<Rightarrow> True
        | Some f \<Rightarrow> \<not> isl (f (join_space (filter_texts req_texts))))
        \<and> (case spacy_call lib of
              None \<Rightarrow> True
            | Some nlp \<Rightarrow> \<not> isl (nlp (join_space (filter_texts req_texts))))
        \<and> list_all (\<lambda>t. \<not> isl (sia_call lib t)) (filter_texts req_texts)
       \<longrightarrow> \<not> isl (analyze_or_raise lib req_texts))
   \<and> analyze_or_raise (never_raising an) req_texts = Inr (analyze an req_texts)"
proof (intro conjI impI)
  assume "filter_texts req_texts = []"
  then show "analyze_or_raise lib req_texts = Inr (zero_report, [])"
    by (simp add: analyze_or_raise_def)
next
  assume "(case yake_call lib of
          None \<Rightarrow> True
        | Some f \<Rightarrow> \<not> isl (f (join_space (filter_texts req_texts))))
        \<and> (case spacy_call lib of
              None \<Rightarrow> True
            | Some nlp \<Rightarrow> \<not> isl (nlp (join_space (filter_texts req_texts))))
        \<and> list_all (\<lambda>t. \<not> isl (sia_call lib t)) (filter_texts req_texts)"
  then show "\<not> isl (analyze_or_raise lib req_texts)"
    using analyze_returns [where lib = lib and req_texts = req_texts] by blast
next
  show "analyze_or_raise (never_raising an) req_texts = Inr (analyze an req_texts)"
    by (rule analyze_never_raising)
qed

theorem analyze_returns_unless_library_raises_witness:
  "filter_texts ['' '', ''''] = []
   \<and> analyze_or_raise always_raising_library ['' '', ''''] = Inr (zero_report, [])
   \<and> (case yake_call full_library of
         None \<Rightarrow> True
       | Some f \<Rightarrow> \<not> isl (f (join_space (filter_texts ['' a '', '' '', ''b'']))))
   \<and> (case spacy_call full_library of
         None \<Rightarrow> True
       | Some nlp \<Rightarrow> \<not> isl (nlp (join_space (filter_texts ['' a '', '' '', ''b'']))))
   \<and> list_all (\<lambda>t. \<not> isl (sia_call full_library t)) (filter_texts ['' a '', '' '', ''b''])
   \<and> \<not> isl (analyze_or_raise full_library ['' a '', '' '', ''b''])
   \<and> analyze_or_raise (never_raising plain_analyzers) ['' a '', '' '', ''b'']
       = Inr (analyze plain_analyzers ['' a '', '' '', ''b''])"
proof -
  have h: "filter_texts ['' '', ''''] = []"
    by (simp add: filter_texts_def strip_def isspace_def)
  have f: "filter_texts ['' a '', '' '', ''b''] = ['' a '', ''b'']"
    by (simp add: filter_texts_def strip_def isspace_def)
  have y: "case yake_call full_library of
         None \<Rightarrow> True
       | Some f \<Rightarrow> \<not> isl (f (join_space (filter_texts ['' a '', '' '', ''b''])))"
    by (simp add: full_library_def)
  have n: "case spacy_call full_library of
         None \<Rightarrow> True
       | Some nlp \<Rightarrow> \<not> isl (nlp (join_space (filter_texts ['' a '', '' '', ''b''])))"
    by (simp add: full_library_def f)
  have s: "list_all (\<lambda>t. \<not> isl (sia_call full_library t)) (filter_texts ['' a '', '' '', ''b''])"
    by (simp add: full_library_def f)
  have one: "analyze_or_raise always_raising_library ['' '', ''''] = Inr (zero_report, [])"
    using h analyze_returns_unless_library_raises
            [of "['' '', '''']" always_raising_library plain_analyzers]
    by blast
  have two: "\<not> isl (analyze_or_raise full_library ['' a '', '' '', ''b''])"
    using y n s analyze_returns_unless_library_raises
            [of "['' a '', '' '', ''b'']" full_library plain_analyzers]
    by blast
  have three: "analyze_or_raise (never_raising plain_analyzers) ['' a '', '' '', ''b'']
       = Inr (analyze plain_analyzers ['' a '', '' '', ''b''])"
    using analyze_returns_unless_library_raises
            [of "['' a '', '' '', ''b'']" full_library plain_analyzers]
    by blast
  show ?thesis
    by (intro conjI) (rule h one y n s two three)+
qed

subsection \<open>The samples\<close>

text \<open>
  Claim C9, as stated, fails on the empty batch: the report returned there has no
  \<open>samples\<close> key, where the claim asks for the (empty) list of the first 10 texts.
\<close>

theorem samples_counterexample:
  "samples (fst (analyze plain_analyzers [])) \<noteq> Some (take 10 (filter_texts []))"
  by (simp add: analyze_def filter_texts_def zero_report_def)

text \<open>
  Claim C9, amended.  For every analyze call whose batch has a text that is non-empty
  after trimming, the report carries a samples field equal to the first 10 filtered
  input texts, verbatim and in their original order.
\<close>

theorem samples_first_ten:
  assumes "filter_texts req_texts \<noteq> []"
  shows "samples (fst (analyze an req_texts)) = Some (take 10 (filter_texts req_texts))"
  using assms by (simp add: analyze_def Let_def)

theorem samples_first_ten_witness:
  "filter_texts ['' a '', '' '', ''b''] \<noteq> []
   \<and> samples (fst (analyze plain_analyzers ['' a '', '' '', ''b''])) = Some ['' a '', ''b'']"
proof -
  have f: "filter_texts ['' a '', '' '', ''b''] = ['' a '', ''b'']"
    by (simp add: filter_texts_def strip_def isspace_def)
  have h: "filter_texts ['' a '', '' '', ''b''] \<noteq> []"
    by (simp add: f)
  show ?thesis using h samples_first_ten [OF h, of plain_analyzers] by (simp add: f)
qed

section \<open>Properties of the ingestion\<close>

subsection \<open>The twitter branch\<close>

lemma getattr_undeclared:
  "getattr req ''use_twitter_snscrape'' = Inl (AttributeError ''use_twitter_snscrape'')"
  by (simp add: getattr_def req_dict_def)

text \<open>
  Claim C10.  For every request whose platform is neither \<open>reddit\<close> nor \<open>news\<close>, whatever
  string it is, a fetch that misses the cache takes the twitter branch without any check
  of the platform, and there the read of \<open>use_twitter_snscrape\<close>, which the request model
  does not declare, raises: the fetch fails with \<open>AttributeError\<close>, no collaborator has
  been called and the cache is as before.
\<close>

theorem scrape_unknown_platform:
  assumes "platform req \<noteq> ''reddit''" and "platform req \<noteq> ''news''"
    and "\<not> cache_contains (timer_contains w) c (cache_key w ''scrape'' (req_dict req))"
  shows "scrape w c req = (Inl (AttributeError ''use_twitter_snscrape''), c, [])"
  using assms by (simp add: scrape_def adapter_def getattr_undeclared)

theorem scrape_unknown_platform_witness:
  "platform (req_twitter\<lparr>platform := ''mastodon''\<rparr>) \<noteq> ''reddit''
   \<and> platform (req_twitter\<lparr>platform := ''mastodon''\<rparr>) \<noteq> ''news''
   \<and> \<not> cache_contains (timer_contains base_world) []
        (cache_key base_world ''scrape'' (req_dict (req_twitter\<lparr>platform := ''mastodon''\<rparr>)))
   \<and> scrape base_world [] (req_twitter\<lparr>platform := ''mastodon''\<rparr>)
       = (Inl (AttributeError ''use_twitter_snscrape''), [], [])"
proof -
  have a: "platform (req_twitter\<lparr>platform := ''mastodon''\<rparr>) \<noteq> ''reddit''" by simp
  have b: "platform (req_twitter\<lparr>platform := ''mastodon''\<rparr>) \<noteq> ''news''" by simp
  have c: "\<not> cache_contains (timer_contains base_world) []
        (cache_key base_world ''scrape'' (req_dict (req_twitter\<lparr>platform := ''mastodon''\<rparr>)))"
    by (simp add: cache_contains_def)
  show ?thesis using a b c scrape_unknown_platform [OF a b c] by simp
qed

text \<open>
  The adapter itself does what is asked of it: with the flag off it returns the empty
  list and calls nothing, and with the flag on a failing subprocess gives the empty
  list.
\<close>

lemma scrape_twitter_disabled: "scrape_twitter w kw days False = ([], [])"
  by (simp add: scrape_twitter_def)

lemma scrape_twitter_subprocess_error:
  "subprocess_run w (twitter_cmd w kw days) = Inl e \<Longrightarrow>
   scrape_twitter w kw days True = ([], [Subprocess_run (twitter_cmd w kw days)])"
  by (simp add: scrape_twitter_def)

text \<open>
  Claim C3.  A fetch with platform \<open>twitter\<close> should return the empty list when the
  flag is off and when the subprocess fails.  The request model has no field for the
  flag, so the route never reaches the adapter: the fetch of \<open>req_twitter\<close> on an empty
  cache fails with \<open>AttributeError\<close>.
\<close>

theorem twitter_fetch_fails:
  "scrape base_world [] req_twitter = (Inl (AttributeError ''use_twitter_snscrape''), [], [])"
  by (simp add: scrape_def adapter_def getattr_def req_dict_def cache_contains_def req_twitter_def)

subsection \<open>Failures and the cache\<close>

text \<open>
  The reddit adapter checks the status of the response: when the upstream answers with
  a status other than 200, a fetch that missed the cache fails with the \<open>HTTPException\<close>
  of the adapter, and the cache is unchanged: it still holds no entry for the fingerprint
  of the request.
\<close>

theorem upstream_failure_not_cached:
  assumes "platform req = ''reddit''"
    and "\<not> cache_contains (timer_contains w) c (cache_key w ''scrape'' (req_dict req))"
    and "requests_get w reddit_url (reddit_params (keyword req)) = Inr r"
    and "status_code r \<noteq> 200"
  shows "fst (scrape w c req) = Inl (HTTPException 502 ''Reddit fetch failed'')
         \<and> fst (snd (scrape w c req)) = c
         \<and> \<not> cache_contains (timer_contains w) (fst (snd (scrape w c req)))
              (cache_key w ''scrape'' (req_dict req))"
  using assms by (simp add: scrape_def adapter_def scrape_reddit_def)

theorem upstream_failure_not_cached_witness:
  "platform req_reddit = ''reddit''
   \<and> \<not> cache_contains (timer_contains reddit_down_world) []
        (cache_key reddit_down_world ''scrape'' (req_dict req_reddit))
   \<and> requests_get reddit_down_world reddit_url (reddit_params (keyword req_reddit))
       = Inr \<lparr>status_code = 503, children = []\<rparr>
   \<and> status_code \<lparr>status_code = 503, children = []\<rparr> \<noteq> 200
   \<and> fst (scrape reddit_down_world [] req_reddit) = Inl (HTTPException 502 ''Reddit fetch failed'')
   \<and> fst (snd (scrape reddit_down_world [] req_reddit)) = []"
proof -
  have a: "platform req_reddit = ''reddit''" by (simp add: req_reddit_def)
  have b: "\<not> cache_contains (timer_contains reddit_down_world) []
        (cache_key reddit_down_world ''scrape'' (req_dict req_reddit))"
    by (simp add: cache_contains_def)
  have c: "requests_get reddit_down_world reddit_url (reddit_params (keyword req_reddit))
       = Inr \<lparr>status_code = 503, children = []\<rparr>"
    by (simp add: reddit_down_world_def)
  have d: "status_code \<lparr>status_code = 503, children = []\<rparr> \<noteq> 200" by simp
  show ?thesis using a b c d upstream_failure_not_cached [OF a b c d] by simp
qed

lemma key30_base: "cache_key base_world ''scrape'' (req_dict req30)
   = ''4270a964b2b7641327790413de8f1ae381ff6a0b014af815d4ea156dcd7fc17f''"
  by code_simp

text \<open>
  Claim C6.  A failure of the upstream should reach the caller as a failure of the
  fetch and leave the cache as it was.  The news adapter does not look at the outcome of
  the upstream request: when the feed is down the parser returns no entries, the fetch
  succeeds with an empty list, this list is stored, and the next fetch serves it from the
  cache.
\<close>

theorem news_failure_is_cached:
  "scrape news_down_world [] req30
     = (Inr \<lparr>cached = False, items = []\<rparr>,
        [\<lparr>ce_key = ''4270a964b2b7641327790413de8f1ae381ff6a0b014af815d4ea156dcd7fc17f'',
          ce_expires = 600, ce_items = []\<rparr>],
        [Feedparser_parse (feed_url ''climate'')])
   \<and> fst (scrape news_down_world (fst (snd (scrape news_down_world [] req30))) req30)
       = Inr \<lparr>cached = True, items = []\<rparr>"
proof -
  have t: "timer_contains base_world = 0" "timer_getitem base_world = 0"
    "timer_setitem base_world = 0"
    by (simp_all add: base_world_def)
  have ad: "adapter base_world req30 = (Inr [], [Feedparser_parse (feed_url ''climate'')])"
    by (simp add: adapter_def req30_def scrape_news_def base_world_def)
  have one: "scrape news_down_world [] req30
     = (Inr \<lparr>cached = False, items = []\<rparr>,
        [\<lparr>ce_key = ''4270a964b2b7641327790413de8f1ae381ff6a0b014af815d4ea156dcd7fc17f'',
          ce_expires = 600, ce_items = []\<rparr>],
        [Feedparser_parse (feed_url ''climate'')])"
    by (simp add: news_down_world_def scrape_def key30_base ad t cache_contains_def
        cache_setitem_def ttl_def)
  have two: "fst (scrape news_down_world (fst (snd (scrape news_down_world [] req30))) req30)
       = Inr \<lparr>cached = True, items = []\<rparr>"
    by (simp add: one)
       (simp add: news_down_world_def scrape_def key30_base t cache_contains_def
          cache_getitem_def)
  from one two show ?thesis by simp
qed

subsection \<open>The text of a post\<close>

text \<open>The reddit adapter drops a child whose text is empty after trimming.\<close>

lemma reddit_loop_text: "p \<in> set (reddit_loop cutoff ds) \<Longrightarrow> p_text p \<noteq> []"
  by (induction ds) (auto simp: reddit_post_def split: if_splits)

text \<open>
  Claim C2.  Every post an adapter returns should have a non-empty text.  The news
  adapter has no such check: for a feed whose one entry has an empty title and an empty
  summary, the fetch returns one post, and its text is empty.
\<close>

theorem news_post_with_empty_text:
  "map_sum id (map p_text \<circ> items) (fst (scrape blank_entry_world [] req30)) = Inr [[]]"
  by (simp add: scrape_def adapter_def scrape_news_def cache_contains_def req30_def
      blank_entry_world_def base_world_def blank_entry_def news_published_def
      timedelta_days_def clamp_def news_text_def get_or_def strip_def isspace_def)

subsection \<open>The recency filter\<close>

text \<open>
  Claim C5, as stated, fails: no adapter compares a timestamp with the upper end of the
  window.  With the clock at 1700000000 the reddit adapter returns a child dated
  1700000600.
\<close>

theorem future_post_counterexample:
  "map_sum id (map p_created_utc \<circ> items) (fst (scrape early_child_world [] req_reddit))
     = Inr [1700000600]
   \<and> \<not> (1700000600 * 1000000 \<le> utc_now early_child_world)"
  by (simp add: scrape_def adapter_def scrape_reddit_def cache_contains_def req_reddit_def
      early_child_world_def base_world_def early_child_def reddit_created_def reddit_post_def
      reddit_text_def timedelta_days_def clamp_def get_or_def strip_def isspace_def
      timestamp_int_def)

lemma one_entry_news: "fst (scrape_news one_entry_world ''climate'' 7) = Inr [fresh_post]"
  by (simp add: scrape_news_def one_entry_world_def base_world_def fresh_entry_def
      news_published_def timedelta_days_def news_text_def get_or_def strip_def isspace_def
      timestamp_int_def md5_table_def fresh_post_def)

lemma timestamp_int_lower: "ts - 1000000 < timestamp_int ts * 1000000"
proof (cases "0 \<le> ts")
  case True
  have "ts = ts div 1000000 * 1000000 + ts mod 1000000" by simp
  moreover have "ts mod 1000000 < 1000000" by simp
  ultimately have "ts - 1000000 < ts div 1000000 * 1000000" by linarith
  with True show ?thesis by (simp add: timestamp_int_def)
next
  case False
  have "- ts = (- ts) div 1000000 * 1000000 + (- ts) mod 1000000" by simp
  moreover have "0 \<le> (- ts) mod 1000000" by simp
  ultimately have "(- ts) div 1000000 * 1000000 \<le> - ts" by linarith
  with False show ?thesis by (simp add: timestamp_int_def)
qed

lemma timestamp_int_seconds: "timestamp_int (s * 1000000) = s"
proof (cases "0 \<le> s")
  case True
  then show ?thesis by (simp add: timestamp_int_def)
next
  case False
  have "(- (s * 1000000)) div 1000000 = (- s * 1000000) div 1000000" by simp
  also have "\<dots> = - s" by (rule nonzero_mult_div_cancel_right) simp
  finally have "(- (s * 1000000)) div 1000000 = - s" .
  with False show ?thesis by (simp add: timestamp_int_def)
qed

lemma reddit_loop_source:
  "p \<in> set (reddit_loop cutoff ds) \<Longrightarrow>
   \<exists>d. d \<in> set ds \<and> p = reddit_post d \<and> cutoff \<le> reddit_created d"
proof (induction ds)
  case Nil
  then show ?case by simp
next
  case (Cons d ds)
  show ?case
  proof (cases "p = reddit_post d \<and> \<not> reddit_created d < cutoff")
    case True
    then show ?thesis by (intro exI [of _ d]) simp
  next
    case False
    with Cons.prems have "p \<in> set (reddit_loop cutoff ds)"
      by (auto split: if_splits)
    then have "\<exists>d'. d' \<in> set ds \<and> p = reddit_post d' \<and> cutoff \<le> reddit_created d'"
      by (rule Cons.IH)
    then show ?thesis by auto
  qed
qed

lemma news_loop_source:
  "news_loop w now cutoff es = Inr ps \<Longrightarrow> p \<in> set ps \<Longrightarrow>
   \<exists>e. e \<in> set es \<and> cutoff \<le> news_published now e
       \<and> p_created_utc p = timestamp_int (news_published now e)
       \<and> p_text p = news_text e"
proof (induction es arbitrary: ps)
  case Nil
  then show ?case by simp
next
  case (Cons e es)
  show ?case
  proof (cases "news_published now e < cutoff")
    case True
    with Cons.prems have "news_loop w now cutoff es = Inr ps" by simp
    then have "\<exists>e'. e' \<in> set es \<and> cutoff \<le> news_published now e'
       \<and> p_created_utc p = timestamp_int (news_published now e')
       \<and> p_text p = news_text e'"
      using Cons.prems(2) by (rule Cons.IH)
    then show ?thesis by auto
  next
    case False
    with Cons.prems(1) obtain link qs where
      qs: "news_loop w now cutoff es = Inr qs" and
      ps: "ps = \<lparr>p_id = PyStr (md5_hexdigest w (if link \<noteq> [] then link else news_text e)),
                  p_platform = ''news'', p_author = None,
                  p_created_utc = timestamp_int (news_published now e),
                  p_permalink = link, p_text = news_text e\<rparr> # qs"
      by (auto split: option.splits sum.splits)
    show ?thesis
    proof (cases "p \<in> set qs")
      case True
      with qs have "\<exists>e'. e' \<in> set es \<and> cutoff \<le> news_published now e'
         \<and> p_created_utc p = timestamp_int (news_published now e')
         \<and> p_text p = news_text e'"
        by (rule Cons.IH)
      then show ?thesis by auto
    next
      case notin: False
      with ps Cons.prems(2) have "p_created_utc p = timestamp_int (news_published now e)
          \<and> p_text p = news_text e"
        by auto
      with False show ?thesis by (intro exI [of _ e]) simp
    qed
  qed
qed

lemma news_created_cases:
  "timestamp_int (news_published now e)
     = (case e_published_parsed e of None \<Rightarrow> timestamp_int now | Some s \<Rightarrow> s)"
  by (simp add: news_published_def timestamp_int_seconds split: option.splits)

lemma scrape_reddit_source:
  assumes "fst (scrape_reddit w kw days) = Inr ps" and "p \<in> set ps"
  shows "\<exists>(r::http_response) d.
           requests_get w reddit_url (reddit_params kw) = Inr r \<and> d \<in> set (children r)
           \<and> p = reddit_post d
           \<and> utc_now w - timedelta_days days \<le> reddit_created d
           \<and> p_created_utc p = timestamp_int (reddit_created d)
           \<and> utc_now w - timedelta_days days - 1000000 < p_created_utc p * 1000000"
proof -
  from assms(1) obtain r :: http_response where
    r: "requests_get w reddit_url (reddit_params kw) = Inr r" and
    ps: "ps = reddit_loop (utc_now w - timedelta_days days) (children r)"
    by (cases "requests_get w reddit_url (reddit_params kw)")
       (auto simp: scrape_reddit_def Let_def split: if_splits)
  from assms(2) ps obtain d where
    d: "d \<in> set (children r)" "p = reddit_post d"
       "utc_now w - timedelta_days days \<le> reddit_created d"
    using reddit_loop_source by blast
  have c: "p_created_utc p = timestamp_int (reddit_created d)"
    using d(2) by (simp add: reddit_post_def)
  have "utc_now w - timedelta_days days - 1000000 < p_created_utc p * 1000000"
    using timestamp_int_lower [of "reddit_created d"] d(3) c by simp
  with r d c show ?thesis by blast
qed

lemma scrape_news_source:
  assumes "fst (scrape_news w kw days) = Inr qs" and "q \<in> set qs"
  shows "\<exists>e. e \<in> set (take 50 (feedparser_parse w (feed_url kw)))
           \<and> utc_now w - timedelta_days days \<le> news_published (utc_now w) e
           \<and> p_created_utc q
               = (case e_published_parsed e of None \<Rightarrow> timestamp_int (utc_now w) | Some s \<Rightarrow> s)
           \<and> p_text q = news_text e
           \<and> utc_now w - timedelta_days days - 1000000 < p_created_utc q * 1000000"
proof -
  from assms(1) have "news_loop w (utc_now w) (utc_now w - timedelta_days days)
               (take 50 (feedparser_parse w (feed_url kw))) = Inr qs"
    by (simp add: scrape_news_def Let_def)
  from news_loop_source [OF this assms(2)] obtain e where
    e: "e \<in> set (take 50 (feedparser_parse w (feed_url kw)))"
       "utc_now w - timedelta_days days \<le> news_published (utc_now w) e"
       "p_created_utc q = timestamp_int (news_published (utc_now w) e)"
       "p_text q = news_text e"
    by blast
  have "utc_now w - timedelta_days days - 1000000 < p_created_utc q * 1000000"
    using timestamp_int_lower [of "news_published (utc_now w) e"] e(2,3) by simp
  with e show ?thesis unfolding news_created_cases [symmetric] by blast
qed

lemma dated_news_30:
  "scrape_news dated_world ''climate'' 30
     = (Inr [dated_post, fresh_post], [Feedparser_parse (feed_url ''climate'')])"
  by (simp add: scrape_news_def dated_world_def base_world_def old_entry_def dated_entry_def
      fresh_entry_def news_published_def timedelta_days_def news_text_def get_or_def
      strip_def isspace_def timestamp_int_def md5_table_def fresh_post_def dated_post_def)

lemma dated_reddit_30: "fst (scrape_reddit dated_world ''climate'' 30) = Inr [recent_post]"
  by (simp add: scrape_reddit_def dated_world_def base_world_def stale_child_def
      recent_child_def reddit_created_def reddit_text_def reddit_post_def timedelta_days_def
      get_or_def strip_def isspace_def timestamp_int_def recent_post_def)

text \<open>
  Claim C5, amended.  Every post returned by the reddit-like adapter is made of a child
  of the listing whose timestamp is not earlier than now minus \<open>timeframe_days\<close> days,
  and every post returned by the news-like adapter is made of one of the first 50 feed
  entries whose publish time is not earlier than that cutoff, where now is read once per
  adapter call and an entry without a publish time counts as published now.
  \<open>created_utc\<close> is the whole second of that timestamp (for a news entry the publish
  time itself, or the second of now), so it is later than the cutoff minus one second.
\<close>

theorem created_not_before_cutoff:
  "(fst (scrape_reddit w kw days) = Inr ps \<and> p \<in> set ps \<longrightarrow>
      (\<exists>(r::http_response) d.
           requests_get w reddit_url (reddit_params kw) = Inr r \<and> d \<in> set (children r)
           \<and> p = reddit_post d
           \<and> utc_now w - timedelta_days days \<le> reddit_created d
           \<and> p_created_utc p = timestamp_int (reddit_created d)
           \<and> utc_now w - timedelta_days days - 1000000 < p_created_utc p * 1000000))
   \<and> (fst (scrape_news w kw days) = Inr qs \<and> q \<in> set qs \<longrightarrow>
      (\<exists>e. e \<in> set (take 50 (feedparser_parse w (feed_url kw)))
           \<and> utc_now w - timedelta_days days \<le> news_published (utc_now w) e
           \<and> p_created_utc q
               = (case e_published_parsed e of None \<Rightarrow> timestamp_int (utc_now w) | Some s \<Rightarrow> s)
           \<and> p_text q = news_text e
           \<and> utc_now w - timedelta_days days - 1000000 < p_created_utc q * 1000000))"
  using scrape_reddit_source [of w kw days ps p] scrape_news_source [of w kw days qs q]
  by blast

theorem created_not_before_cutoff_witness:
  "fst (scrape_reddit dated_world ''climate'' 30) = Inr [recent_post]
   \<and> recent_post \<in> set [recent_post]
   \<and> fst (scrape_news dated_world ''climate'' 30) = Inr [dated_post, fresh_post]
   \<and> dated_post \<in> set [dated_post, fresh_post]
   \<and> (\<exists>(r::http_response) d.
           requests_get dated_world reddit_url (reddit_params ''climate'') = Inr r
           \<and> d \<in> set (children r)
           \<and> recent_post = reddit_post d
           \<and> utc_now dated_world - timedelta_days 30 \<le> reddit_created d
           \<and> p_created_utc recent_post = timestamp_int (reddit_created d)
           \<and> utc_now dated_world - timedelta_days 30 - 1000000
               < p_created_utc recent_post * 1000000)
   \<and> (\<exists>e. e \<in> set (take 50 (feedparser_parse dated_world (feed_url ''climate'')))
           \<and> utc_now dated_world - timedelta_days 30 \<le> news_published (utc_now dated_world) e
           \<and> p_created_utc dated_post
               = (case e_published_parsed e of
                    None \<Rightarrow> timestamp_int (utc_now dated_world) | Some s \<Rightarrow> s)
           \<and> p_text dated_post = news_text e
           \<and> utc_now dated_world - timedelta_days 30 - 1000000
               < p_created_utc dated_post * 1000000)
   \<and> fresh_post \<in> set [dated_post, fresh_post]
   \<and> (\<exists>e. e \<in> set (take 50 (feedparser_parse dated_world (feed_url ''climate'')))
           \<and> utc_now dated_world - timedelta_days 30 \<le> news_published (utc_now dated_world) e
           \<and> p_created_utc fresh_post
               = (case e_published_parsed e of
                    None \<Rightarrow> timestamp_int (utc_now dated_world) | Some s \<Rightarrow> s)
           \<and> p_text fresh_post = news_text e
           \<and> utc_now dated_world - timedelta_days 30 - 1000000
               < p_created_utc fresh_post * 1000000)"
proof -
  have a: "fst (scrape_reddit dated_world ''climate'' 30) = Inr [recent_post]"
    by (rule dated_reddit_30)
  have b: "recent_post \<in> set [recent_post]" by simp
  have c: "fst (scrape_news dated_world ''climate'' 30) = Inr [dated_post, fresh_post]"
    by (simp add: dated_news_30)
  have d: "dated_post \<in> set [dated_post, fresh_post]" by simp
  have e: "fresh_post \<in> set [dated_post, fresh_post]" by simp
  have first: "(\<exists>(r::http_response) d.
           requests_get dated_world reddit_url (reddit_params ''climate'') = Inr r
           \<and> d \<in> set (children r)
           \<and> recent_post = reddit_post d
           \<and> utc_now dated_world - timedelta_days 30 \<le> reddit_created d
           \<and> p_created_utc recent_post = timestamp_int (reddit_created d)
           \<and> utc_now dated_world - timedelta_days 30 - 1000000
               < p_created_utc recent_post * 1000000)
   \<and> (\<exists>e. e \<in> set (take 50 (feedparser_parse dated_world (feed_url ''climate'')))
           \<and> utc_now dated_world - timedelta_days 30 \<le> news_published (utc_now dated_world) e
           \<and> p_created_utc dated_post
               = (case e_published_parsed e of
                    None \<Rightarrow> timestamp_int (utc_now dated_world) | Some s \<Rightarrow> s)
           \<and> p_text dated_post = news_text e
           \<and> utc_now dated_world - timedelta_days 30 - 1000000
               < p_created_utc dated_post * 1000000)"
    using a b c d
      created_not_before_cutoff [of dated_world "''climate''" 30 "[recent_post]" recent_post
        "[dated_post, fresh_post]" dated_post]
    by blast
  have second: "(\<exists>e. e \<in> set (take 50 (feedparser_parse dated_world (feed_url ''climate'')))
           \<and> utc_now dated_world - timedelta_days 30 \<le> news_published (utc_now dated_world) e
           \<and> p_created_utc fresh_post
               = (case e_published_parsed e of
                    None \<Rightarrow> timestamp_int (utc_now dated_world) | Some s \<Rightarrow> s)
           \<and> p_text fresh_post = news_text e
           \<and> utc_now dated_world - timedelta_days 30 - 1000000
               < p_created_utc fresh_post * 1000000)"
    using c e
      created_not_before_cutoff [of dated_world "''climate''" 30 "[recent_post]" recent_post
        "[dated_post, fresh_post]" fresh_post]
    by blast
  from a b c d e first second show ?thesis by blast
qed

subsection \<open>The item caps\<close>

lemma news_loop_skip:
  "news_published now e < cutoff \<Longrightarrow>
   news_loop w now cutoff (replicate n e @ es) = news_loop w now cutoff es"
  by (induction n) simp_all

lemma old_entry_skipped:
  "news_published (utc_now long_feed_world) old_entry
     < utc_now long_feed_world - timedelta_days 7"
  by (simp add: long_feed_world_def base_world_def old_entry_def news_published_def
      timedelta_days_def)

lemma fresh_entry_kept:
  "news_loop long_feed_world (utc_now long_feed_world)
     (utc_now long_feed_world - timedelta_days 7) [fresh_entry] = Inr [fresh_post]"
  by (simp add: long_feed_world_def base_world_def fresh_entry_def news_published_def
      timedelta_days_def news_text_def get_or_def strip_def isspace_def
      timestamp_int_def md5_table_def fresh_post_def)

text \<open>
  Claim C4, as stated, fails: the news adapter cuts the feed to its first 50 entries
  and filters these.  On a feed of 50 old entries followed by a fresh one it returns
  nothing, where capping after the filter would return the fresh entry.
\<close>

theorem cap_before_filter_counterexample:
  "fst (scrape_news long_feed_world ''climate'' 7) = Inr []
   \<and> news_cap_after_filter long_feed_world ''climate'' 7 = Inr [fresh_post]"
proof -
  have feed: "feedparser_parse long_feed_world (feed_url ''climate'')
                = replicate 50 old_entry @ [fresh_entry]"
    by (simp add: long_feed_world_def)
  have "news_loop long_feed_world (utc_now long_feed_world)
          (utc_now long_feed_world - timedelta_days 7) (replicate 50 old_entry @ []) = Inr []"
    using old_entry_skipped by (simp only: news_loop_skip news_loop.simps)
  then have one: "fst (scrape_news long_feed_world ''climate'' 7) = Inr []"
    by (simp add: scrape_news_def Let_def feed)
  have "news_loop long_feed_world (utc_now long_feed_world)
          (utc_now long_feed_world - timedelta_days 7) (replicate 50 old_entry @ [fresh_entry])
        = Inr [fresh_post]"
    using old_entry_skipped fresh_entry_kept by (simp only: news_loop_skip)
  then have two: "news_cap_after_filter long_feed_world ''climate'' 7 = Inr [fresh_post]"
    by (simp add: news_cap_after_filter_def Let_def feed)
  from one two show ?thesis by simp
qed

lemma news_loop_length:
  "news_loop w now cutoff es = Inr ps \<Longrightarrow> length ps \<le> length es"
proof (induction es arbitrary: ps)
  case Nil
  then show ?case by simp
next
  case (Cons e es)
  show ?case
  proof (cases "news_published now e < cutoff")
    case True
    with Cons.prems have "news_loop w now cutoff es = Inr ps" by simp
    then have "length ps \<le> length es" by (rule Cons.IH)
    then show ?thesis by simp
  next
    case False
    with Cons.prems obtain q qs where
      "news_loop w now cutoff es = Inr qs" and "ps = q # qs"
      by (auto split: option.splits sum.splits)
    then show ?thesis using Cons.IH [of qs] by simp
  qed
qed

lemma twitter_loop_length:
  "twitter_loop acc ls = Some r \<Longrightarrow> length acc < 100 \<Longrightarrow> length r \<le> 100"
proof (induction acc ls rule: twitter_loop.induct)
  case (1 acc)
  then show ?case by simp
next
  case (2 acc ls)
  then show ?case by simp
next
  case (3 acc t ls)
  show ?case
  proof (cases "length (acc @ [tweet_post t]) \<ge> 100")
    case True
    with "3.prems" show ?thesis by auto
  next
    case False
    with "3.prems" have "twitter_loop (acc @ [tweet_post t]) ls = Some r" by simp
    moreover from False have "length (acc @ [tweet_post t]) < 100" by simp
    ultimately show ?thesis using False by (intro "3.IH") simp_all
  qed
qed

lemma scrape_twitter_length: "length (fst (scrape_twitter w kw days flag)) \<le> 100"
  by (auto simp: scrape_twitter_def Let_def split: sum.splits option.splits
      dest: twitter_loop_length)

text \<open>
  Claim C4, amended.  The news-like adapter takes the first 50 entries of the feed and
  applies the recency filter to these, so it returns at most 50 posts; the twitter-like
  adapter stops at 100 posts; the reddit-like adapter asks the upstream for at most 100
  children (\<open>limit=100\<close>).
\<close>

theorem adapter_caps:
  assumes "fst (scrape_news w kw days) = Inr ps"
  shows "news_loop w (utc_now w) (utc_now w - timedelta_days days)
           (take 50 (feedparser_parse w (feed_url kw))) = Inr ps
         \<and> length ps \<le> 50
         \<and> length (fst (scrape_twitter w kw days flag)) \<le> 100
         \<and> snd (scrape_reddit w kw days)
             = [Requests_get reddit_url [(''q'', kw), (''sort'', ''new''), (''limit'', ''100'')]]"
proof -
  have loop: "news_loop w (utc_now w) (utc_now w - timedelta_days days)
           (take 50 (feedparser_parse w (feed_url kw))) = Inr ps"
    using assms by (simp add: scrape_news_def Let_def)
  have "length ps \<le> length (take 50 (feedparser_parse w (feed_url kw)))"
    using loop by (rule news_loop_length)
  then have len: "length ps \<le> 50" by simp
  have red: "snd (scrape_reddit w kw days)
             = [Requests_get reddit_url [(''q'', kw), (''sort'', ''new''), (''limit'', ''100'')]]"
    by (simp add: scrape_reddit_def reddit_params_def Let_def split: sum.splits)
  from loop len red scrape_twitter_length show ?thesis by simp
qed

theorem adapter_caps_witness:
  "fst (scrape_news one_entry_world ''climate'' 7) = Inr [fresh_post]
   \<and> news_loop one_entry_world (utc_now one_entry_world)
       (utc_now one_entry_world - timedelta_days 7)
       (take 50 (feedparser_parse one_entry_world (feed_url ''climate''))) = Inr [fresh_post]
   \<and> length [fresh_post] \<le> 50
   \<and> length (fst (scrape_twitter one_entry_world ''climate'' 7 True)) \<le> 100"
  using one_entry_news adapter_caps [OF one_entry_news, of True] by simp

subsection \<open>Clamping and the cache key\<close>

text \<open>
  The strings hashed for the two example requests, and their keys.
\<close>

lemma key_string_400:
  \<open>''scrape'' @ json_dumps (req_dict req400)
     = ''scrape{"keyword": "climate", "platform": "news", "timeframe_days": 400}''\<close>
  by code_simp

lemma key_string_30:
  \<open>''scrape'' @ json_dumps (req_dict req30)
     = ''scrape{"keyword": "climate", "platform": "news", "timeframe_days": 30}''\<close>
  by code_simp

lemma key400: "cache_key one_entry_world ''scrape'' (req_dict req400)
   = ''2a978cce1fb205f39470441bfbad33f0363f341ee2889c89f8ef3a47671b80fd''"
  by (simp add: cache_key_def one_entry_world_def base_world_def sha256_table_def)

lemma key30: "cache_key one_entry_world ''scrape'' (req_dict req30)
   = ''4270a964b2b7641327790413de8f1ae381ff6a0b014af815d4ea156dcd7fc17f''"
  by code_simp

lemma one_entry_news_30:
  "scrape_news one_entry_world ''climate'' 30
     = (Inr [fresh_post], [Feedparser_parse (feed_url ''climate'')])"
  by (simp add: scrape_news_def one_entry_world_def base_world_def fresh_entry_def
      news_published_def timedelta_days_def news_text_def get_or_def strip_def isspace_def
      timestamp_int_def md5_table_def fresh_post_def)

lemma news400:
  "adapter one_entry_world req400 = (Inr [fresh_post], [Feedparser_parse (feed_url ''climate'')])"
  using one_entry_news_30 by (simp add: adapter_def req400_def clamp_def)

lemma news30:
  "adapter one_entry_world req30 = (Inr [fresh_post], [Feedparser_parse (feed_url ''climate'')])"
  using one_entry_news_30 by (simp add: adapter_def req30_def clamp_def)

lemma timers: "timer_contains one_entry_world = 0" "timer_getitem one_entry_world = 0"
  "timer_setitem one_entry_world = 0"
  by (simp_all add: one_entry_world_def base_world_def)

lemma first400:
  "scrape one_entry_world [] req400
     = (Inr \<lparr>cached = False, items = [fresh_post]\<rparr>,
        [\<lparr>ce_key = ''2a978cce1fb205f39470441bfbad33f0363f341ee2889c89f8ef3a47671b80fd'',
          ce_expires = 600, ce_items = [fresh_post]\<rparr>],
        [Feedparser_parse (feed_url ''climate'')])"
  by (simp add: scrape_def key400 news400 timers cache_contains_def cache_setitem_def ttl_def)

text \<open>
  Claim C1, as stated, fails: the key is computed from the request as received, before
  any clamping.  The requests for 400 and for 30 days clamp to the same 30 days, yet
  after a fetch for 400 days has stored its result, the same request hits the cache and
  the request for 30 days misses it.
\<close>

theorem unclamped_key_counterexample:
  "clamp (timeframe_days req400) 1 30 = clamp (timeframe_days req30) 1 30
   \<and> map_sum id cached (fst (scrape one_entry_world [] req400)) = Inr False
   \<and> map_sum id cached
       (fst (scrape one_entry_world (fst (snd (scrape one_entry_world [] req400))) req400))
       = Inr True
   \<and> map_sum id cached
       (fst (scrape one_entry_world (fst (snd (scrape one_entry_world [] req400))) req30))
       = Inr False"
proof -
  have a: "clamp (timeframe_days req400) 1 30 = clamp (timeframe_days req30) 1 30"
    by (simp add: req400_def req30_def clamp_def)
  have b: "map_sum id cached (fst (scrape one_entry_world [] req400)) = Inr False"
    by (simp add: first400)
  have c: "map_sum id cached
       (fst (scrape one_entry_world (fst (snd (scrape one_entry_world [] req400))) req400))
       = Inr True"
    by (simp add: first400)
       (simp add: scrape_def key400 timers cache_contains_def cache_getitem_def)
  have d: "map_sum id cached
       (fst (scrape one_entry_world (fst (snd (scrape one_entry_world [] req400))) req30))
       = Inr False"
    by (simp add: first400)
       (simp add: scrape_def key30 news30 timers cache_contains_def)
  from a b c d show ?thesis by simp
qed

lemma adapter_clamp:
  assumes "keyword r1 = keyword r2" and "platform r1 = platform r2"
    and "clamp (timeframe_days r1) 1 30 = clamp (timeframe_days r2) 1 30"
  shows "adapter w r1 = adapter w r2"
  using assms by (simp add: adapter_def getattr_undeclared)

text \<open>
  The cache after a store: the key stored can be read until the entry expires, and no
  other key becomes readable.
\<close>

lemma find_append_None: "find P xs = None \<Longrightarrow> find P (xs @ ys) = find P ys"
  by (induction xs) (auto split: if_splits)

lemma find_append_last: "\<not> P x \<Longrightarrow> find P (xs @ [x]) = find P xs"
  by (induction xs) auto

lemma find_key_unique:
  "distinct (map ce_key c) \<Longrightarrow> e \<in> set c \<Longrightarrow> find (\<lambda>x. ce_key x = ce_key e) c = Some e"
  by (induction c) auto

lemma cache_setitem_kept:
  "cache_setitem t c k v = kept_entries t c k @ [\<lparr>ce_key = k, ce_expires = t + ttl, ce_items = v\<rparr>]"
  by (simp add: cache_setitem_def kept_entries_def Let_def)

lemma kept_entries_subset: "set (kept_entries t c k) \<subseteq> set c"
  by (auto simp: kept_entries_def dest: in_set_dropD)

lemma kept_entries_no_key: "find (\<lambda>e. ce_key e = k) (kept_entries t c k) = None"
proof (cases "find (\<lambda>e. ce_key e = k) (filter (\<lambda>e. t < ce_expires e) c) = None")
  case True
  then have "\<forall>x \<in> set (filter (\<lambda>e. t < ce_expires e) c). ce_key x \<noteq> k"
    by (simp add: find_None_iff)
  then have "\<forall>x \<in> set (drop (Suc (length (filter (\<lambda>e. t < ce_expires e) c)) - maxsize)
                       (filter (\<lambda>e. t < ce_expires e) c)). ce_key x \<noteq> k"
    by (meson in_set_dropD)
  then have "find (\<lambda>e. ce_key e = k)
               (drop (Suc (length (filter (\<lambda>e. t < ce_expires e) c)) - maxsize)
                  (filter (\<lambda>e. t < ce_expires e) c)) = None"
    by (simp add: find_None_iff)
  with True show ?thesis by (simp add: kept_entries_def)
next
  case False
  then have "kept_entries t c k
               = filter (\<lambda>e. ce_key e \<noteq> k) (filter (\<lambda>e. t < ce_expires e) c)"
    by (simp only: kept_entries_def if_False)
  then show ?thesis by (simp add: find_None_iff)
qed

lemma cache_setitem_same:
  "t < t' + ttl \<Longrightarrow> cache_contains t (cache_setitem t' c k v) k"
  by (simp add: cache_contains_def cache_setitem_kept find_append_None kept_entries_no_key)

lemma cache_setitem_other:
  assumes "distinct (map ce_key c)" and "k2 \<noteq> k"
    and "cache_contains t (cache_setitem t' c k v) k2"
  shows "cache_contains t c k2"
proof -
  have "find (\<lambda>e. ce_key e = k2) (cache_setitem t' c k v)
          = find (\<lambda>e. ce_key e = k2) (kept_entries t' c k)"
    using assms(2) by (simp add: cache_setitem_kept find_append_last)
  with assms(3) obtain e where
    e: "find (\<lambda>e. ce_key e = k2) (kept_entries t' c k) = Some e" and live: "t < ce_expires e"
    by (auto simp: cache_contains_def split: option.splits)
  from e have "e \<in> set (kept_entries t' c k)" and key: "ce_key e = k2"
    by (auto simp: find_Some_iff in_set_conv_nth)
  then have "e \<in> set c" using kept_entries_subset by blast
  with assms(1) have "find (\<lambda>x. ce_key x = ce_key e) c = Some e"
    by (rule find_key_unique)
  with key live show ?thesis by (simp add: cache_contains_def)
qed

lemma cache_contains_later:
  "\<not> cache_contains t0 c k \<Longrightarrow> t0 \<le> t \<Longrightarrow> \<not> cache_contains t c k"
  by (auto simp: cache_contains_def split: option.splits)

lemma clamp_range: "1 \<le> clamp v 1 30 \<and> clamp v 1 30 \<le> 30"
  by (simp add: clamp_def)

text \<open>
  The operations of the cache keep one entry per key.
\<close>

lemma kept_entries_distinct:
  "distinct (map ce_key c) \<Longrightarrow> distinct (map ce_key (kept_entries t c k))"
  by (simp add: kept_entries_def distinct_map_filter drop_map [symmetric])

lemma cache_setitem_distinct:
  assumes "distinct (map ce_key c)"
  shows "distinct (map ce_key (cache_setitem t c k v))"
proof -
  have "k \<notin> ce_key ` set (kept_entries t c k)"
    using kept_entries_no_key [of k t c] by (auto simp: find_None_iff)
  with kept_entries_distinct [OF assms, of t k] show ?thesis
    by (simp add: cache_setitem_kept)
qed

lemma cache_getitem_distinct:
  assumes "distinct (map ce_key c)" and "cache_getitem t c k = Inr (its, c')"
  shows "distinct (map ce_key c')"
proof -
  from assms(2) obtain e where
    e: "find (\<lambda>e. ce_key e = k) c = Some e" and c': "c' = filter (\<lambda>x. ce_key x \<noteq> k) c @ [e]"
    by (auto simp: cache_getitem_def split: option.splits if_splits)
  from e have "ce_key e = k" by (auto simp: find_Some_iff)
  with assms(1) c' show ?thesis by (auto simp: distinct_map_filter)
qed

lemma scrape_distinct:
  assumes "distinct (map ce_key c)"
  shows "distinct (map ce_key (fst (snd (scrape w c r))))"
proof (cases "cache_contains (timer_contains w) c (cache_key w ''scrape'' (req_dict r))")
  case True
  then show ?thesis using assms
    by (auto simp: scrape_def split: sum.splits dest: cache_getitem_distinct)
next
  case False
  then show ?thesis using assms
    by (cases "adapter w r") (auto simp: scrape_def cache_setitem_distinct split: sum.splits)
qed

lemma adapter_result:
  "fst (adapter w r)
     = (if platform r = ''reddit''
        then fst (scrape_reddit w (keyword r) (clamp (timeframe_days r) 1 30))
        else if platform r = ''news''
        then fst (scrape_news w (keyword r) (clamp (timeframe_days r) 1 30))
        else Inl (AttributeError ''use_twitter_snscrape''))"
  by (simp add: adapter_def getattr_undeclared)

lemma scrape_miss:
  assumes "\<not> cache_contains (timer_contains w) c (cache_key w ''scrape'' (req_dict r))"
  shows "fst (scrape w c r) = map_sum id (\<lambda>its. \<lparr>cached = False, items = its\<rparr>) (fst (adapter w r))"
    and "snd (snd (scrape w c r)) = snd (adapter w r)"
    and "fst (snd (scrape w c r))
          = (case fst (adapter w r) of
               Inl e \<Rightarrow> c
             | Inr its \<Rightarrow> cache_setitem (timer_setitem w) c (cache_key w ''scrape'' (req_dict r)) its)"
  using assms by (cases "adapter w r"; auto simp: scrape_def split: sum.splits)+

text \<open>
  Claim C1, amended.  \<open>timeframe_days\<close> is clamped to the range from 1 to 30 where
  the adapter is called, after the cache key has been computed from the request as
  received.  A fetch that misses the cache returns what the adapter of its platform
  returns for the clamped value, so filtering uses the clamped value, and two requests
  that are identical except for \<open>timeframe_days\<close> values that clamp to the same value
  get the same result from the same upstream calls.  A result is stored under the key of
  the unclamped request that produced it: afterwards, until that entry expires, the
  other request finds an entry exactly when its key is the same.
\<close>

theorem clamp_for_adapter_only:
  assumes "keyword r1 = keyword r2" and "platform r1 = platform r2"
    and "clamp (timeframe_days r1) 1 30 = clamp (timeframe_days r2) 1 30"
    and "\<not> cache_contains (timer_contains w) c (cache_key w ''scrape'' (req_dict r1))"
    and "\<not> cache_contains (timer_contains w) c (cache_key w ''scrape'' (req_dict r2))"
    and "distinct (map ce_key c)" and "timer_contains w \<le> t" and "t < timer_setitem w + ttl"
  shows "1 \<le> clamp (timeframe_days r1) 1 30 \<and> clamp (timeframe_days r1) 1 30 \<le> 30
     \<and> fst (scrape w c r1)
         = map_sum id (\<lambda>its. \<lparr>cached = False, items = its\<rparr>)
             (if platform r1 = ''reddit''
              then fst (scrape_reddit w (keyword r1) (clamp (timeframe_days r1) 1 30))
              else if platform r1 = ''news''
              then fst (scrape_news w (keyword r1) (clamp (timeframe_days r1) 1 30))
              else Inl (AttributeError ''use_twitter_snscrape''))
     \<and> fst (scrape w c r1) = fst (scrape w c r2)
     \<and> snd (snd (scrape w c r1)) = snd (snd (scrape w c r2))
     \<and> (case fst (scrape w c r1) of
          Inl e \<Rightarrow> fst (snd (scrape w c r1)) = c
        | Inr resp \<Rightarrow>
            fst (snd (scrape w c r1))
              = cache_setitem (timer_setitem w) c (cache_key w ''scrape'' (req_dict r1))
                  (items resp)
            \<and> (cache_contains t (fst (snd (scrape w c r1)))
                  (cache_key w ''scrape'' (req_dict r2))
                \<longleftrightarrow> cache_key w ''scrape'' (req_dict r2)
                      = cache_key w ''scrape'' (req_dict r1)))"
proof -
  let ?k1 = "cache_key w ''scrape'' (req_dict r1)"
  let ?k2 = "cache_key w ''scrape'' (req_dict r2)"
  have eq: "adapter w r1 = adapter w r2"
    using assms(1-3) by (rule adapter_clamp)
  have one: "fst (scrape w c r1)
         = map_sum id (\<lambda>its. \<lparr>cached = False, items = its\<rparr>)
             (if platform r1 = ''reddit''
              then fst (scrape_reddit w (keyword r1) (clamp (timeframe_days r1) 1 30))
              else if platform r1 = ''news''
              then fst (scrape_news w (keyword r1) (clamp (timeframe_days r1) 1 30))
              else Inl (AttributeError ''use_twitter_snscrape''))"
    unfolding scrape_miss(1) [OF assms(4)] adapter_result ..
  have two: "fst (scrape w c r1) = fst (scrape w c r2)"
    by (simp add: scrape_miss(1) [OF assms(4)] scrape_miss(1) [OF assms(5)] eq)
  have three: "snd (snd (scrape w c r1)) = snd (snd (scrape w c r2))"
    by (simp add: scrape_miss(2) [OF assms(4)] scrape_miss(2) [OF assms(5)] eq)
  have later: "\<not> cache_contains t c ?k2"
    using assms(5,7) by (rule cache_contains_later)
  have share: "cache_contains t (cache_setitem (timer_setitem w) c ?k1 its) ?k2 \<longleftrightarrow> ?k2 = ?k1"
    for its
  proof
    assume h: "cache_contains t (cache_setitem (timer_setitem w) c ?k1 its) ?k2"
    show "?k2 = ?k1"
    proof (rule ccontr)
      assume "?k2 \<noteq> ?k1"
      with assms(6) have "cache_contains t c ?k2" using h by (rule cache_setitem_other)
      with later show False by simp
    qed
  next
    assume "?k2 = ?k1"
    then show "cache_contains t (cache_setitem (timer_setitem w) c ?k1 its) ?k2"
      using assms(8) by (simp add: cache_setitem_same)
  qed
  have four: "(case fst (scrape w c r1) of
          Inl e \<Rightarrow> fst (snd (scrape w c r1)) = c
        | Inr resp \<Rightarrow>
            fst (snd (scrape w c r1)) = cache_setitem (timer_setitem w) c ?k1 (items resp)
            \<and> (cache_contains t (fst (snd (scrape w c r1))) ?k2 \<longleftrightarrow> ?k2 = ?k1))"
    unfolding scrape_miss(1) [OF assms(4)] scrape_miss(3) [OF assms(4)]
    by (cases "fst (adapter w r1)") (simp_all add: share)
  from clamp_range [of "timeframe_days r1"] one two three four show ?thesis by simp
qed

lemma key400_dated: "cache_key dated_world ''scrape'' (req_dict req400)
   = ''2a978cce1fb205f39470441bfbad33f0363f341ee2889c89f8ef3a47671b80fd''"
  by (simp add: cache_key_def dated_world_def base_world_def sha256_table_def)

lemma key30_dated: "cache_key dated_world ''scrape'' (req_dict req30)
   = ''4270a964b2b7641327790413de8f1ae381ff6a0b014af815d4ea156dcd7fc17f''"
  by code_simp

lemma old_entry_within_400:
  "\<not> news_published (utc_now dated_world) old_entry < utc_now dated_world - timedelta_days 400"
  by (simp add: dated_world_def base_world_def old_entry_def news_published_def
      timedelta_days_def)

theorem clamp_for_adapter_only_witness:
  "keyword req400 = keyword req30 \<and> platform req400 = platform req30
   \<and> clamp (timeframe_days req400) 1 30 = clamp (timeframe_days req30) 1 30
   \<and> \<not> cache_contains (timer_contains dated_world) []
        (cache_key dated_world ''scrape'' (req_dict req400))
   \<and> \<not> cache_contains (timer_contains dated_world) []
        (cache_key dated_world ''scrape'' (req_dict req30))
   \<and> distinct (map ce_key [])
   \<and> timer_contains dated_world \<le> 0
   \<and> 0 < timer_setitem dated_world + ttl
   \<and> \<not> news_published (utc_now dated_world) old_entry
         < utc_now dated_world - timedelta_days 400
   \<and> fst (scrape dated_world [] req400)
       = Inr \<lparr>cached = False, items = [dated_post, fresh_post]\<rparr>
   \<and> fst (scrape dated_world [] req30)
       = Inr \<lparr>cached = False, items = [dated_post, fresh_post]\<rparr>
   \<and> \<not> cache_contains 0 (fst (snd (scrape dated_world [] req400)))
         (cache_key dated_world ''scrape'' (req_dict req30))"
proof -
  have a: "keyword req400 = keyword req30" by (simp add: req400_def req30_def)
  have b: "platform req400 = platform req30" by (simp add: req400_def req30_def)
  have c: "clamp (timeframe_days req400) 1 30 = clamp (timeframe_days req30) 1 30"
    by (simp add: req400_def req30_def clamp_def)
  have d: "\<not> cache_contains (timer_contains dated_world) []
        (cache_key dated_world ''scrape'' (req_dict req400))"
    by (simp add: cache_contains_def)
  have e: "\<not> cache_contains (timer_contains dated_world) []
        (cache_key dated_world ''scrape'' (req_dict req30))"
    by (simp add: cache_contains_def)
  have f: "distinct (map ce_key [])" by simp
  have g: "timer_contains dated_world \<le> 0" by (simp add: dated_world_def base_world_def)
  have h: "0 < timer_setitem dated_world + ttl"
    by (simp add: dated_world_def base_world_def ttl_def)
  have req: "platform req400 = ''news''" "keyword req400 = ''climate''"
    "clamp (timeframe_days req400) 1 30 = 30"
    by (simp_all add: req400_def clamp_def)
  note route = clamp_for_adapter_only [OF a b c d e f g h]
  have r1: "fst (scrape dated_world [] req400)
       = Inr \<lparr>cached = False, items = [dated_post, fresh_post]\<rparr>"
    using route by (simp add: req dated_news_30)
  have r2: "fst (scrape dated_world [] req30)
       = Inr \<lparr>cached = False, items = [dated_post, fresh_post]\<rparr>"
  proof -
    have "fst (scrape dated_world [] req400) = fst (scrape dated_world [] req30)"
      using route by blast
    with r1 show ?thesis by simp
  qed
  have nc: "\<not> cache_contains 0 (fst (snd (scrape dated_world [] req400)))
         (cache_key dated_world ''scrape'' (req_dict req30))"
  proof -
    have "case fst (scrape dated_world [] req400) of
            Inl e \<Rightarrow> fst (snd (scrape dated_world [] req400)) = []
          | Inr resp \<Rightarrow>
              fst (snd (scrape dated_world [] req400))
                = cache_setitem (timer_setitem dated_world) []
                    (cache_key dated_world ''scrape'' (req_dict req400)) (items resp)
              \<and> (cache_contains 0 (fst (snd (scrape dated_world [] req400)))
                    (cache_key dated_world ''scrape'' (req_dict req30))
                  \<longleftrightarrow> cache_key dated_world ''scrape'' (req_dict req30)
                        = cache_key dated_world ''scrape'' (req_dict req400))"
      using route by blast
    then have "cache_contains 0 (fst (snd (scrape dated_world [] req400)))
                 (cache_key dated_world ''scrape'' (req_dict req30))
               \<longleftrightarrow> cache_key dated_world ''scrape'' (req_dict req30)
                     = cache_key dated_world ''scrape'' (req_dict req400)"
      by (auto simp: r1)
    then show ?thesis by (simp only: key400_dated key30_dated) simp
  qed
  show ?thesis
    by (intro conjI) (rule a b c d e f g h old_entry_within_400 r1 r2 nc)+
qed

end
